theory Spec2Isabelle
  imports Complex_Main
begin

section \<open>The RQ3 forecast handler (src/Lambda/RQ3/lambda\_function.py)\<close>

text \<open>
  Conventions of the embedding.
  \<^item> A calendar date is an \<open>int\<close>, the number of days since the epoch; a timestamp is an
    \<open>int\<close>, the number of seconds since the epoch. \<open>pd.to_datetime\<close> of a date is its
    midnight, \<open>.date()\<close> of a timestamp is its day, \<open>timedelta(days=i)\<close> is \<open>i * 86400\<close>
    seconds.
  \<^item> Python floats are modelled as \<open>real\<close>: rounding, infinities and NaN (a NULL reading) are
    outside the model.
  \<^item> A data frame is the list of its rows, in row order.
  \<^item> Every raise of the source is a value \<open>Inl e\<close>; the handler has no \<open>try\<close>, so an error
    ends the invocation at the statement that raised.
  \<^item> The module-level generator of \<open>random\<close> is a state of type \<open>'g\<close> with a step function
    \<open>draw\<close>, both parameters: \<open>random.randrange(n)\<close> returns an index below \<open>n\<close> that is a
    function of the generator state, and advances the state.
  \<^item> A statement sent to the relational store raises when the parameter \<open>faulty\<close> holds of its
    kind, and succeeds otherwise.
\<close>

subsection \<open>Dates and errors\<close>

definition to_datetime :: "int \<Rightarrow> int" where
  "to_datetime d = d * 86400"

definition date_of :: "int \<Rightarrow> int" where
  "date_of ts = ts div 86400"

definition add_days :: "int \<Rightarrow> nat \<Rightarrow> int" where
  "add_days ts i = ts + int i * 86400"

datatype db_op = Connect | ReadFires | ReadAqi | CreateTable | SelectDates | Insert | Commit

datatype error = DatabaseError db_op | UnboundLocalError | IndexError | ZeroDivisionError

definition no_faults :: "db_op \<Rightarrow> bool" where
  "no_faults op = False"

subsection \<open>The linear model trained by SGD (lines 11-47)\<close>

text \<open>\<open>self.w\<close> is a list of exactly three floats; it is modelled as a triple.\<close>

record SimpleLinearTimeModel =
  w :: "real \<times> real \<times> real"
  lr :: real

definition init_model :: "real \<Rightarrow> SimpleLinearTimeModel" where
  "init_model rate = \<lparr>w = (0, 1 / 2, 1 / 2), lr = rate\<rparr>"

definition predict_one :: "SimpleLinearTimeModel \<Rightarrow> real \<Rightarrow> real \<Rightarrow> real" where
  "predict_one m aqi_t fire_t =
     (case w m of (w0, w1, w2) \<Rightarrow> w0 + w1 * aqi_t + w2 * fire_t)"

definition randrange :: "('g \<Rightarrow> nat \<times> 'g) \<Rightarrow> 'g \<Rightarrow> nat \<Rightarrow> nat \<times> 'g" where
  "randrange draw g n = (case draw g of (r, g') \<Rightarrow> (r mod n, g'))"

text \<open>One pass of the loop body, lines 34-47, for the drawn index \<open>i\<close>.\<close>

definition sgd_update :: "SimpleLinearTimeModel \<Rightarrow> real \<Rightarrow> real \<Rightarrow> real \<Rightarrow> SimpleLinearTimeModel" where
  "sgd_update m a f y =
     (let pred = predict_one m a f;
          err = pred - y;
          grad_w0 = 2 * err;
          grad_w1 = 2 * err * a;
          grad_w2 = 2 * err * f
      in case w m of (w0, w1, w2) \<Rightarrow>
           m\<lparr>w := (w0 - lr m * grad_w0, w1 - lr m * grad_w1, w2 - lr m * grad_w2)\<rparr>)"

fun sgd_loop :: "('g \<Rightarrow> nat \<times> 'g) \<Rightarrow> real list \<Rightarrow> real list \<Rightarrow> real list \<Rightarrow> nat \<Rightarrow>
    SimpleLinearTimeModel \<times> 'g \<Rightarrow> error + SimpleLinearTimeModel \<times> 'g" where
  "sgd_loop draw x_aqi x_fire y_next 0 (m, g) = Inr (m, g)"
| "sgd_loop draw x_aqi x_fire y_next (Suc ep) (m, g) =
     (case randrange draw g (length y_next) of (i, g') \<Rightarrow>
        if i < length x_aqi \<and> i < length x_fire
        then sgd_loop draw x_aqi x_fire y_next ep
               (sgd_update m (x_aqi ! i) (x_fire ! i) (y_next ! i), g')
        else Inl IndexError)"

definition sgd_train :: "('g \<Rightarrow> nat \<times> 'g) \<Rightarrow> real list \<Rightarrow> real list \<Rightarrow> real list \<Rightarrow> nat \<Rightarrow>
    SimpleLinearTimeModel \<times> 'g \<Rightarrow> error + SimpleLinearTimeModel \<times> 'g" where
  "sgd_train draw x_aqi x_fire y_next epochs mg =
     (let n = length y_next
      in if n = 0 then Inr mg
         else sgd_loop draw x_aqi x_fire y_next epochs mg)"

text \<open>The indices that \<open>k\<close> successive calls of \<open>random.randrange(n)\<close> return from the
  generator state \<open>g\<close>, and the state they leave.\<close>

fun drawn_indices :: "('g \<Rightarrow> nat \<times> 'g) \<Rightarrow> nat \<Rightarrow> nat \<Rightarrow> 'g \<Rightarrow> nat list \<times> 'g" where
  "drawn_indices draw n 0 g = ([], g)"
| "drawn_indices draw n (Suc k) g =
     (case randrange draw g n of (i, g') \<Rightarrow>
        (case drawn_indices draw n k g' of (is, g'') \<Rightarrow> (i # is, g'')))"

subsection \<open>The daily merged series (lines 79-101)\<close>

definition mean :: "real list \<Rightarrow> real" where
  "mean xs = sum_list xs / real (length xs)"

text \<open>\<open>df.groupby('date')[col].mean().reset_index()\<close>: one row per distinct key, keys ascending.\<close>

definition groupby_mean :: "(int \<times> real) list \<Rightarrow> (int \<times> real) list" where
  "groupby_mean rows =
     map (\<lambda>d. (d, mean (map snd (filter (\<lambda>r. fst r = d) rows))))
         (sort (remdups (map fst rows)))"

definition fire_daily_of :: "(int \<times> real) list \<Rightarrow> (int \<times> real) list" where
  "fire_daily_of fire_df = (if fire_df \<noteq> [] then groupby_mean fire_df else [])"

text \<open>\<open>last_fire_date\<close> is assigned only in the branch for a non-empty \<open>fire_df\<close>.\<close>

definition last_fire_date_of :: "(int \<times> real) list \<Rightarrow> int option" where
  "last_fire_date_of fire_df =
     (if fire_df \<noteq> [] then Some (to_datetime (Max (set (map fst (fire_daily_of fire_df)))))
      else None)"

definition aqi_daily_of :: "(int \<times> int) list \<Rightarrow> (int \<times> real) list" where
  "aqi_daily_of aqi_df =
     (if aqi_df \<noteq> []
      then groupby_mean (map (\<lambda>(ts, v). (date_of ts, real_of_int v)) aqi_df)
      else [])"

record merged_row =
  date :: int
  aqi :: real
  fire_intensity :: real

text \<open>\<open>pd.merge(left, right, on='date', how='left')\<close>: every left row, in order, once per
  matching right row, and once with a missing value when no right row matches.\<close>

definition merge_left :: "(int \<times> real) list \<Rightarrow> (int \<times> real) list \<Rightarrow> (int \<times> real \<times> real option) list" where
  "merge_left left right =
     concat (map (\<lambda>(d, a).
       (case filter (\<lambda>r. fst r = d) right of
          [] \<Rightarrow> [(d, a, None)]
        | ms \<Rightarrow> map (\<lambda>r. (d, a, Some (snd r))) ms)) left)"

definition fillna :: "real \<Rightarrow> real option \<Rightarrow> real" where
  "fillna v x = (case x of None \<Rightarrow> v | Some y \<Rightarrow> y)"

text \<open>Lines 96-101: the left merge, \<open>fillna(0.0)\<close> and \<open>sort_values('date')\<close>.\<close>

definition merged_series :: "(int \<times> real) list \<Rightarrow> (int \<times> real) list \<Rightarrow> merged_row list" where
  "merged_series aqi_daily fire_daily =
     sort_key date
       (map (\<lambda>(d, a, f). \<lparr>date = d, aqi = a, fire_intensity = fillna 0 f\<rparr>)
            (merge_left aqi_daily fire_daily))"

subsection \<open>The forecast (lines 104-177)\<close>

record forecast =
  forecast_dates :: "int list"
  fire_event_time :: int
  forecast_aqi :: "real list"

definition fire_event_time_of :: "int \<Rightarrow> (int \<times> real) list \<Rightarrow> int" where
  "fire_event_time_of now fire_df =
     (if fire_df \<noteq> [] then to_datetime (Max (set (map fst fire_df))) else now)"

text \<open>Lines 105-116, the path taken when \<open>len(df) < 5\<close>.\<close>

definition fallback_forecast :: "int \<Rightarrow> (int \<times> real) list \<Rightarrow> (int \<times> real) list \<Rightarrow> forecast" where
  "fallback_forecast now fire_df fire_daily =
     (let last_fire = (if fire_daily \<noteq> [] then snd (last fire_daily) else 0);
          fire_weight = 5;
          last_date = (if fire_daily \<noteq> [] then to_datetime (fst (last fire_daily)) else now)
      in \<lparr>forecast_dates = map (\<lambda>i. date_of (add_days last_date i)) [1 ..< 4],
          fire_event_time = fire_event_time_of now fire_df,
          forecast_aqi = replicate 3 (last_fire * fire_weight)\<rparr>)"

text \<open>Lines 136-137: the two scaling factors; \<open>len(x) = 0\<close> raises in the division.\<close>

definition scale_factors :: "real list \<Rightarrow> real list \<Rightarrow> error + real \<times> real" where
  "scale_factors x_aqi x_fire =
     (if length x_aqi = 0 \<or> length x_fire = 0 then Inl ZeroDivisionError
      else Inr (max 1 (sum_list x_aqi / real (length x_aqi)),
                max 1 (sum_list x_fire / real (length x_fire))))"

text \<open>Lines 149-152: the weights in original units.\<close>

definition unscale :: "real \<Rightarrow> real \<Rightarrow> real \<times> real \<times> real \<Rightarrow> real \<times> real \<times> real" where
  "unscale mean_aqi mean_fire ws =
     (case ws of (w0_s, w1_s, w2_s) \<Rightarrow>
        (mean_aqi * w0_s, w1_s, (mean_aqi / mean_fire) * w2_s))"

text \<open>Lines 155-156: the row the rollout starts from; \<open>iloc[-1]\<close> of an empty frame
  raises.\<close>

definition seed_row :: "int \<Rightarrow> merged_row list \<Rightarrow> error + merged_row" where
  "seed_row last_fire_date df =
     (let df_before_fire = filter (\<lambda>r. date r \<le> date_of last_fire_date) df
      in if df_before_fire = [] then Inl IndexError else Inr (last df_before_fire))"

text \<open>Lines 164-177: the loop over \<open>range(1, forecast_days + 1)\<close>; the loop state is
  \<open>(forecast_dates, forecast_aqi, current_aqi)\<close>.\<close>

fun rollout :: "real \<times> real \<times> real \<Rightarrow> real \<Rightarrow> int \<Rightarrow> nat list \<Rightarrow>
    int list \<times> real list \<times> real \<Rightarrow> int list \<times> real list \<times> real" where
  "rollout ws future_fire last_date [] st = st"
| "rollout ws future_fire last_date (i # is) (dates, aqis, current_aqi) =
     (case ws of (w0, w1, w2) \<Rightarrow>
        (let pred = w0 + w1 * current_aqi + w2 * future_fire;
             pred = max 0 pred
         in rollout ws future_fire last_date is
              (dates @ [date_of (add_days last_date i)], aqis @ [pred], pred)))"

text \<open>Lines 124-132: the training samples.\<close>

definition training_samples :: "merged_row list \<Rightarrow> real list \<times> real list \<times> real list" where
  "training_samples df =
     (let aqi_vals = map aqi df;
          fire_vals = map fire_intensity df;
          idx = [0 ..< length df - 1]
      in (map (\<lambda>i. aqi_vals ! i) idx,
          map (\<lambda>i. fire_vals ! i) idx,
          map (\<lambda>i. aqi_vals ! (i + 1)) idx))"

text \<open>Lines 122-181, the path taken when \<open>len(df) \<ge> 5\<close>. An error carries the generator
  state reached when it is raised.\<close>

definition full_model_forecast :: "('g \<Rightarrow> nat \<times> 'g) \<Rightarrow> int \<Rightarrow> (int \<times> real) list \<Rightarrow> int option \<Rightarrow>
    merged_row list \<Rightarrow> 'g \<Rightarrow> error \<times> 'g + forecast \<times> 'g" where
  "full_model_forecast draw now fire_df last_fire_date df g =
     (case training_samples df of (x_aqi, x_fire, y_next) \<Rightarrow>
      (case scale_factors x_aqi x_fire of
        Inl e \<Rightarrow> Inl (e, g)
      | Inr (mean_aqi, mean_fire) \<Rightarrow>
          (let x_aqi_scaled = map (\<lambda>a. a / mean_aqi) x_aqi;
               x_fire_scaled = map (\<lambda>f. f / mean_fire) x_fire;
               y_scaled = map (\<lambda>y. y / mean_aqi) y_next
           in case sgd_train draw x_aqi_scaled x_fire_scaled y_scaled 4000
                     (init_model (1 / 1000), g) of
                Inl e \<Rightarrow> Inl (e, g)
              | Inr (model, g') \<Rightarrow>
                  (let ws = unscale mean_aqi mean_fire (w model)
                   in case last_fire_date of
                        None \<Rightarrow> Inl (UnboundLocalError, g')
                      | Some last_fire_date \<Rightarrow>
                          (case seed_row last_fire_date df of
                             Inl e \<Rightarrow> Inl (e, g')
                           | Inr last_row \<Rightarrow>
                               (let last_aqi = aqi last_row;
                                    last_fire_intensity = fire_intensity last_row;
                                    last_date = last_fire_date;
                                    future_fire = last_fire_intensity
                                in case rollout ws future_fire last_date [1 ..< 3 + 1]
                                          ([], [], last_aqi) of
                                     (dates, aqis, _) \<Rightarrow>
                                       Inr (\<lparr>forecast_dates = dates,
                                             fire_event_time = fire_event_time_of now fire_df,
                                             forecast_aqi = aqis\<rparr>, g')))))))"

subsection \<open>The prediction store (lines 193-221)\<close>

record prediction =
  prediction_date :: int
  fire_event_timestamp :: int
  predicted_aqi :: real

text \<open>The part of the world an invocation changes: the rows of
  \<open>dv.air_quality_predictions\<close> (a table not yet created has no rows), the generator of the
  process, the number of connections acquired so far, and the cursors and connections
  that are open.\<close>

record 'g state =
  predictions :: "prediction list"
  rng :: 'g
  connects :: nat
  open_cursors :: nat
  open_conns :: nat

text \<open>Lines 205-206: the \<open>CREATE TABLE IF NOT EXISTS\<close> and its commit; the rows of the
  table are left as they are.\<close>

definition create_prediction_table :: "(db_op \<Rightarrow> bool) \<Rightarrow> 'g state \<Rightarrow> error + 'g state" where
  "create_prediction_table faulty s =
     (if faulty CreateTable then Inl (DatabaseError CreateTable)
      else if faulty Commit then Inl (DatabaseError Commit)
      else Inr s)"

text \<open>The loop of lines 217-220; its state is \<open>existing_dates\<close> and the rows of the table
  as the open transaction sees them.\<close>

fun insert_loop :: "(db_op \<Rightarrow> bool) \<Rightarrow> int \<Rightarrow> (int \<times> real) list \<Rightarrow>
    int set \<times> prediction list \<Rightarrow> error + int set \<times> prediction list" where
  "insert_loop faulty fet [] st = Inr st"
| "insert_loop faulty fet ((d, a) # rest) (existing_dates, rows) =
     (if d \<notin> existing_dates
      then if faulty Insert then Inl (DatabaseError Insert)
           else insert_loop faulty fet rest
                  (insert d existing_dates,
                   rows @ [\<lparr>prediction_date = d, fire_event_timestamp = fet, predicted_aqi = a\<rparr>])
      else insert_loop faulty fet rest (existing_dates, rows))"

text \<open>The rows become the table's at \<open>conn.commit()\<close>; an error before it leaves the table
  as it was.\<close>

definition insert_timeseries :: "(db_op \<Rightarrow> bool) \<Rightarrow> int list \<Rightarrow> int \<Rightarrow> real list \<Rightarrow>
    'g state \<Rightarrow> error + 'g state" where
  "insert_timeseries faulty dates fet aqi_values s =
     (if faulty SelectDates then Inl (DatabaseError SelectDates)
      else let existing_dates = set (map prediction_date (predictions s))
           in case insert_loop faulty fet (zip dates aqi_values)
                     (existing_dates, predictions s) of
                Inl e \<Rightarrow> Inl e
              | Inr (_, rows) \<Rightarrow>
                  if faulty Commit then Inl (DatabaseError Commit)
                  else Inr (s\<lparr>predictions := rows\<rparr>))"

subsection \<open>The handler (lines 50-190)\<close>

record response =
  statusCode :: nat
  message :: string
  message_dates :: "int list"

definition fallback_response :: response where
  "fallback_response =
     \<lparr>statusCode = 200, message = ''Fallback forecast stored (insufficient history).'',
      message_dates = []\<rparr>"

text \<open>The f-string of line 189: its literal part, and the list it interpolates.\<close>

definition forecast_response :: "int list \<Rightarrow> response" where
  "forecast_response ds =
     \<lparr>statusCode = 200, message = ''3-day AQI time series forecast stored. Dates: '',
      message_dates = ds\<rparr>"

text \<open>Line 8, \<open>random.seed(42)\<close>, runs once when the module is loaded. \<open>seed\<close> is the
  seeding function of the generator, a parameter like \<open>draw\<close>. A fresh process enters its
  first invocation with the generator seeded with 42 and nothing opened; the rows of the
  table are those the store holds.\<close>

definition module_load :: "(nat \<Rightarrow> 'g) \<Rightarrow> prediction list \<Rightarrow> 'g state" where
  "module_load seed rows =
     \<lparr>predictions = rows, rng = seed 42, connects = 0, open_cursors = 0, open_conns = 0\<rparr>"

definition close_all :: "'g state \<Rightarrow> 'g state" where
  "close_all s = s\<lparr>open_cursors := open_cursors s - 1, open_conns := open_conns s - 1\<rparr>"

text \<open>Lines 115-120 and 180-190: create the table, insert, close, return.\<close>

definition store_and_close :: "(db_op \<Rightarrow> bool) \<Rightarrow> forecast \<Rightarrow> response \<Rightarrow> 'g state \<Rightarrow>
    (error + response) \<times> 'g state" where
  "store_and_close faulty fc resp s =
     (case create_prediction_table faulty s of
        Inl e \<Rightarrow> (Inl e, s)
      | Inr s1 \<Rightarrow>
          (case insert_timeseries faulty (forecast_dates fc) (fire_event_time fc)
                  (forecast_aqi fc) s1 of
             Inl e \<Rightarrow> (Inl e, s1)
           | Inr s2 \<Rightarrow> (Inr resp, close_all s2)))"

text \<open>\<open>fires\<close> and \<open>air_quality\<close> are the rows the two queries return: \<open>(acq_date,
  bright_ti4)\<close> and \<open>(pollution_ts, pollution_aqius)\<close>; \<open>now\<close> is the clock.\<close>

definition lambda_handler :: "('g \<Rightarrow> nat \<times> 'g) \<Rightarrow> (db_op \<Rightarrow> bool) \<Rightarrow> int \<Rightarrow>
    (int \<times> real) list \<Rightarrow> (int \<times> int) list \<Rightarrow> 'g state \<Rightarrow> (error + response) \<times> 'g state" where
  "lambda_handler draw faulty now fires air_quality s =
     (if faulty Connect then (Inl (DatabaseError Connect), s)
      else
        let s = s\<lparr>connects := connects s + 1, open_conns := open_conns s + 1,
                  open_cursors := open_cursors s + 1\<rparr>
        in if faulty ReadFires then (Inl (DatabaseError ReadFires), s)
           else
             let fire_df = fires
             in if faulty ReadAqi then (Inl (DatabaseError ReadAqi), s)
                else
                  let aqi_df = air_quality;
                      fire_daily = fire_daily_of fire_df;
                      last_fire_date = last_fire_date_of fire_df;
                      aqi_daily = aqi_daily_of aqi_df;
                      df = merged_series aqi_daily fire_daily
                  in if length df < 5
                     then store_and_close faulty (fallback_forecast now fire_df fire_daily)
                            fallback_response s
                     else
                       (case full_model_forecast draw now fire_df last_fire_date df (rng s) of
                          Inl (e, g) \<Rightarrow> (Inl e, s\<lparr>rng := g\<rparr>)
                        | Inr (fc, g) \<Rightarrow>
                            store_and_close faulty fc (forecast_response (forecast_dates fc))
                              (s\<lparr>rng := g\<rparr>)))"

section \<open>Properties\<close>

subsection \<open>Shared facts\<close>

lemma range_forecast_days: "[1 ..< 3 + 1] = [1, 2, 3::nat]"
  by (simp add: upt_conv_Cons numeral_3_eq_3 numeral_2_eq_2)

lemma range_four: "[0 ..< 4] = [0, 1, 2, 3::nat]"
  by code_simp

lemma date_of_add_days: "date_of (add_days (to_datetime d) i) = d + int i"
  by (simp add: date_of_def add_days_def to_datetime_def)

lemma length_training_samples:
  "training_samples df = (xa, xf, yn) \<Longrightarrow>
     length xa = length df - 1 \<and> length xf = length df - 1 \<and> length yn = length df - 1"
  by (auto simp: training_samples_def Let_def)

lemma predict_unscale:
  assumes "mean_aqi \<noteq> 0" "mean_fire \<noteq> 0"
  shows "predict_one \<lparr>w = unscale mean_aqi mean_fire (w0, w1, w2), lr = r\<rparr> a f
       = mean_aqi * predict_one \<lparr>w = (w0, w1, w2), lr = r\<rparr> (a / mean_aqi) (f / mean_fire)"
  using assms by (simp add: predict_one_def unscale_def field_simps)

lemma keys_groupby_mean: "map fst (groupby_mean rows) = sort (remdups (map fst rows))"
  by (simp add: groupby_mean_def comp_def)

lemma map_of_groupby_mean:
  "map_of (groupby_mean rows) d =
     (if d \<in> fst ` set rows then Some (mean (map snd (filter (\<lambda>r. fst r = d) rows))) else None)"
  by (simp add: groupby_mean_def map_of_map_restrict restrict_map_def)

lemma filter_key_distinct:
  "distinct (map fst right) \<Longrightarrow>
     filter (\<lambda>r. fst r = d) right = (case map_of right d of None \<Rightarrow> [] | Some v \<Rightarrow> [(d, v)])"
proof (induction right)
  case Nil
  then show ?case by simp
next
  case (Cons r right)
  obtain k v where r: "r = (k, v)" by (cases r)
  show ?case
  proof (cases "k = d")
    case True
    with Cons.prems r have "d \<notin> fst ` set right" by auto
    then have "filter (\<lambda>r. fst r = d) right = []"
      by (auto simp: filter_empty_conv)
    with True r show ?thesis by simp
  next
    case False
    with Cons r show ?thesis by simp
  qed
qed

lemma merge_left_distinct:
  assumes "distinct (map fst right)"
  shows "merge_left left right = map (\<lambda>(d, a). (d, a, map_of right d)) left"
proof -
  have h: "(\<lambda>(d, a).
       (case filter (\<lambda>r. fst r = d) right of
          [] \<Rightarrow> [(d, a, None)]
        | ms \<Rightarrow> map (\<lambda>r. (d, a, Some (snd r))) ms)) = (\<lambda>(d, a). [(d, a, map_of right d)])"
    by (auto simp: fun_eq_iff filter_key_distinct [OF assms] split: option.splits)
  show ?thesis
    unfolding merge_left_def h by (induction left) auto
qed

lemma merged_series_eq:
  assumes "distinct (map fst fire_daily)" and "sorted (map fst aqi_daily)"
  shows "merged_series aqi_daily fire_daily =
           map (\<lambda>(d, a). \<lparr>date = d, aqi = a, fire_intensity = fillna 0 (map_of fire_daily d)\<rparr>) aqi_daily"
proof -
  let ?rows = "map (\<lambda>(d, a). \<lparr>date = d, aqi = a, fire_intensity = fillna 0 (map_of fire_daily d)\<rparr>) aqi_daily"
  have "map date ?rows = map fst aqi_daily"
    by (induction aqi_daily) auto
  then have "sorted (map date ?rows)"
    using assms(2) by (simp only:)
  then have "sort_key date ?rows = ?rows"
    by (rule sort_key_id_if_sorted)
  moreover have "map (\<lambda>(d, a, f). \<lparr>date = d, aqi = a, fire_intensity = fillna 0 f\<rparr>)
                   (merge_left aqi_daily fire_daily) = ?rows"
    by (simp add: merge_left_distinct [OF assms(1)] case_prod_beta)
  ultimately show ?thesis
    by (simp only: merged_series_def)
qed

lemma distinct_fire_daily: "distinct (map fst (fire_daily_of fire_df))"
  by (simp add: fire_daily_of_def keys_groupby_mean)

lemma map_of_fire_daily:
  "map_of (fire_daily_of fire_df) d =
     (if d \<in> fst ` set fire_df then Some (mean (map snd (filter (\<lambda>r. fst r = d) fire_df))) else None)"
  by (simp add: fire_daily_of_def map_of_groupby_mean)

lemma keys_aqi_daily:
  "map fst (aqi_daily_of aqi_df) = sort (remdups (map (\<lambda>r. date_of (fst r)) aqi_df))"
  by (simp add: aqi_daily_of_def keys_groupby_mean comp_def case_prod_beta)

lemma merged_series_rows:
  "merged_series (aqi_daily_of aqi_df) (fire_daily_of fire_df) =
     map (\<lambda>(d, a). \<lparr>date = d, aqi = a,
                     fire_intensity = fillna 0 (map_of (fire_daily_of fire_df) d)\<rparr>)
         (aqi_daily_of aqi_df)"
  by (rule merged_series_eq) (simp_all add: distinct_fire_daily keys_aqi_daily)

lemma dates_merged_series:
  "map date (merged_series (aqi_daily_of aqi_df) (fire_daily_of fire_df))
     = sort (remdups (map (\<lambda>r. date_of (fst r)) aqi_df))"
proof -
  have "map date (map (\<lambda>(d, a). \<lparr>date = d, aqi = a, fire_intensity = h d\<rparr>) xs) = map fst xs"
    for h and xs :: "(int \<times> real) list"
    by (induction xs) auto
  then show ?thesis
    by (simp only: merged_series_rows keys_aqi_daily)
qed

lemma insert_loop_present:
  "fst ` set das \<subseteq> E \<Longrightarrow> insert_loop faulty fet das (E, rows) = Inr (E, rows)"
  by (induction das) auto

lemma insert_loop_no_faults:
  "\<exists>new. insert_loop no_faults fet das (E, rows) = Inr (E \<union> fst ` set das, rows @ new)
        \<and> distinct (map prediction_date new)
        \<and> set (map prediction_date new) = fst ` set das - E
        \<and> (\<forall>p \<in> set new. fire_event_timestamp p = fet
              \<and> (prediction_date p, predicted_aqi p) \<in> set das)"
proof (induction das arbitrary: E rows)
  case Nil
  then show ?case by simp
next
  case (Cons x das)
  obtain d a where x: "x = (d, a)" by (cases x)
  show ?case
  proof (cases "d \<in> E")
    case True
    from Cons.IH [of E rows] obtain new where
      "insert_loop no_faults fet das (E, rows) = Inr (E \<union> fst ` set das, rows @ new)"
      "distinct (map prediction_date new)"
      "set (map prediction_date new) = fst ` set das - E"
      "\<forall>p \<in> set new. fire_event_timestamp p = fet \<and> (prediction_date p, predicted_aqi p) \<in> set das"
      by blast
    with True x show ?thesis
      by (intro exI [of _ new]) (auto simp: insert_absorb)
  next
    case False
    let ?row = "\<lparr>prediction_date = d, fire_event_timestamp = fet, predicted_aqi = a\<rparr>"
    from Cons.IH [of "insert d E" "rows @ [?row]"] obtain new where
      n: "insert_loop no_faults fet das (insert d E, rows @ [?row])
            = Inr (insert d E \<union> fst ` set das, (rows @ [?row]) @ new)"
      "distinct (map prediction_date new)"
      "set (map prediction_date new) = fst ` set das - insert d E"
      "\<forall>p \<in> set new. fire_event_timestamp p = fet \<and> (prediction_date p, predicted_aqi p) \<in> set das"
      by blast
    have "insert_loop no_faults fet (x # das) (E, rows)
            = Inr (E \<union> fst ` set (x # das), rows @ (?row # new))"
      using False x n(1) by (simp add: no_faults_def)
    moreover have "distinct (map prediction_date (?row # new))"
      using n(2,3) by auto
    moreover have "set (map prediction_date (?row # new)) = fst ` set (x # das) - E"
      using n(3) False x by auto
    moreover have "\<forall>p \<in> set (?row # new). fire_event_timestamp p = fet
              \<and> (prediction_date p, predicted_aqi p) \<in> set (x # das)"
      using n(4) x by auto
    ultimately show ?thesis by blast
  qed
qed

lemma insert_timeseries_no_faults:
  "\<exists>new. insert_timeseries no_faults dates fet aqi_values s
             = Inr (s\<lparr>predictions := predictions s @ new\<rparr>)
        \<and> distinct (map prediction_date new)
        \<and> set (map prediction_date new)
            = fst ` set (zip dates aqi_values) - set (map prediction_date (predictions s))
        \<and> (\<forall>p \<in> set new. fire_event_timestamp p = fet
              \<and> (prediction_date p, predicted_aqi p) \<in> set (zip dates aqi_values))"
proof -
  from insert_loop_no_faults [of fet "zip dates aqi_values"
      "set (map prediction_date (predictions s))" "predictions s"]
  obtain new where
    n: "insert_loop no_faults fet (zip dates aqi_values)
          (set (map prediction_date (predictions s)), predictions s)
        = Inr (set (map prediction_date (predictions s)) \<union> fst ` set (zip dates aqi_values),
               predictions s @ new)"
    and r: "distinct (map prediction_date new)"
      "set (map prediction_date new)
         = fst ` set (zip dates aqi_values) - set (map prediction_date (predictions s))"
      "\<forall>p \<in> set new. fire_event_timestamp p = fet
              \<and> (prediction_date p, predicted_aqi p) \<in> set (zip dates aqi_values)"
    by blast
  have "insert_timeseries no_faults dates fet aqi_values s
          = Inr (s\<lparr>predictions := predictions s @ new\<rparr>)"
    using n by (simp add: insert_timeseries_def no_faults_def)
  with r show ?thesis by blast
qed

lemma insert_timeseries_again:
  assumes "fst ` set (zip dates aqi_values) \<subseteq> set (map prediction_date (predictions s))"
  shows "insert_timeseries no_faults dates fet aqi_values s = Inr s"
  using insert_loop_present [OF assms, of no_faults fet "predictions s"]
  by (simp add: insert_timeseries_def no_faults_def)

lemma sorted_last_Max:
  fixes ys :: "int list"
  assumes "sorted ys" "ys \<noteq> []"
  shows "last ys = Max (set ys)"
  using assms
proof (induction ys)
  case Nil
  then show ?case by simp
next
  case (Cons x xs)
  show ?case
  proof (cases "xs = []")
    case True
    then show ?thesis by simp
  next
    case False
    with Cons have l: "last xs = Max (set xs)" by simp
    from False have "last xs \<in> set xs" by simp
    with Cons.prems(1) have "x \<le> last xs" by auto
    with l False show ?thesis
      by (simp add: max_def)
  qed
qed

lemma sort_remdups_Nil: "sort (remdups xs) = [] \<longleftrightarrow> xs = []"
  by (metis set_sort set_remdups set_empty)

lemma last_groupby_mean:
  assumes "rows \<noteq> []"
  shows "last (groupby_mean rows) =
           (Max (fst ` set rows),
            mean (map snd (filter (\<lambda>r. fst r = Max (fst ` set rows)) rows)))"
proof -
  let ?ks = "sort (remdups (map fst rows))"
  from assms have ne: "?ks \<noteq> []"
    by (simp add: sort_remdups_Nil)
  have "last ?ks = Max (set ?ks)"
    by (rule sorted_last_Max) (simp_all add: ne del: set_sort)
  then have "last ?ks = Max (fst ` set rows)" by simp
  then show ?thesis
    using ne by (simp add: groupby_mean_def last_map)
qed

lemma last_fire_date_of_eq:
  "last_fire_date_of fires = (if fires \<noteq> [] then Some (to_datetime (Max (fst ` set fires))) else None)"
  by (simp add: last_fire_date_of_def fire_daily_of_def keys_groupby_mean)

lemma fire_daily_of_empty_iff: "fire_daily_of fires = [] \<longleftrightarrow> fires = []"
  by (simp add: fire_daily_of_def groupby_mean_def sort_remdups_Nil)

lemma fallback_forecast_fire:
  assumes "fires \<noteq> []"
  shows "fallback_forecast now fires (fire_daily_of fires) =
     \<lparr>forecast_dates = [Max (fst ` set fires) + 1, Max (fst ` set fires) + 2, Max (fst ` set fires) + 3],
      fire_event_time = to_datetime (Max (fst ` set fires)),
      forecast_aqi = replicate 3 (mean (map snd (filter (\<lambda>r. fst r = Max (fst ` set fires)) fires)) * 5)\<rparr>"
proof -
  have l: "last (fire_daily_of fires) = (Max (fst ` set fires),
            mean (map snd (filter (\<lambda>r. fst r = Max (fst ` set fires)) fires)))"
    using assms by (simp add: fire_daily_of_def last_groupby_mean)
  have r: "[Suc 0 ..< 4] = [1, 2, 3::nat]" by code_simp
  show ?thesis
    using assms
    by (simp add: fallback_forecast_def fire_daily_of_empty_iff l r date_of_add_days
        fire_event_time_of_def)
qed

lemma insert_loop_distinct_faulty:
  "distinct (map fst das) \<Longrightarrow>
   insert_loop faulty fet das (E, rows) =
     (if faulty Insert \<and> filter (\<lambda>(d, a). d \<notin> E) das \<noteq> []
      then Inl (DatabaseError Insert)
      else Inr (E \<union> fst ` set das,
          rows @ map (\<lambda>(d, a). \<lparr>prediction_date = d, fire_event_timestamp = fet, predicted_aqi = a\<rparr>)
                   (filter (\<lambda>(d, a). d \<notin> E) das)))"
proof (induction das arbitrary: E rows)
  case Nil
  then show ?case by simp
next
  case (Cons x das)
  obtain d a where x: "x = (d, a)" by (cases x)
  from Cons.prems x have nd: "d \<notin> fst ` set das" and dd: "distinct (map fst das)"
    by auto
  have f: "filter (\<lambda>(d', a). d' \<notin> insert d E) das = filter (\<lambda>(d', a). d' \<notin> E) das"
    using nd by (intro filter_cong) force+
  show ?case
    using Cons.IH [OF dd] x f by auto
qed

lemma store_and_close_distinct_faulty:
  assumes "distinct (map fst (zip (forecast_dates fc) (forecast_aqi fc)))"
  shows "store_and_close faulty fc resp s =
     (let new = filter (\<lambda>(d, a). d \<notin> set (map prediction_date (predictions s)))
                  (zip (forecast_dates fc) (forecast_aqi fc))
      in if faulty CreateTable then (Inl (DatabaseError CreateTable), s)
         else if faulty Commit then (Inl (DatabaseError Commit), s)
         else if faulty SelectDates then (Inl (DatabaseError SelectDates), s)
         else if faulty Insert \<and> new \<noteq> [] then (Inl (DatabaseError Insert), s)
         else (Inr resp,
               close_all (s\<lparr>predictions := predictions s @
                  map (\<lambda>(d, a). \<lparr>prediction_date = d, fire_event_timestamp = fire_event_time fc,
                                  predicted_aqi = a\<rparr>) new\<rparr>)))"
  using insert_loop_distinct_faulty [OF assms, of faulty "fire_event_time fc"
      "set (map prediction_date (predictions s))" "predictions s"]
  by (simp add: store_and_close_def create_prediction_table_def insert_timeseries_def Let_def)

lemma drawn_indices_bound:
  "0 < n \<Longrightarrow> drawn_indices draw n k g = (is, g') \<Longrightarrow> \<forall>i \<in> set is. i < n"
proof (induction k arbitrary: g "is" g')
  case 0
  then show ?case by simp
next
  case (Suc k)
  then show ?case
    by (auto simp: randrange_def split: prod.splits)
qed

lemma sgd_loop_fold:
  assumes "length x_aqi = length y_next" "length x_fire = length y_next" "y_next \<noteq> []"
  shows "sgd_loop draw x_aqi x_fire y_next k (m, g) =
     (case drawn_indices draw (length y_next) k g of
        (is, g') \<Rightarrow>
          Inr (foldl (\<lambda>m i. sgd_update m (x_aqi ! i) (x_fire ! i) (y_next ! i)) m is, g'))"
proof (induction k arbitrary: m g)
  case 0
  then show ?case by simp
next
  case (Suc k)
  obtain i g1 where r: "randrange draw g (length y_next) = (i, g1)"
    by (cases "randrange draw g (length y_next)")
  then have "i < length y_next"
    using assms(3) by (auto simp: randrange_def split: prod.splits)
  with assms(1,2) have "i < length x_aqi \<and> i < length x_fire" by simp
  with r Suc.IH [of "sgd_update m (x_aqi ! i) (x_fire ! i) (y_next ! i)" g1]
  show ?case
    by (simp split: prod.splits)
qed

lemma sgd_train_fold:
  assumes "length x_aqi = length y_next" "length x_fire = length y_next" "y_next \<noteq> []"
  shows "sgd_train draw x_aqi x_fire y_next k (m, g) =
     (case drawn_indices draw (length y_next) k g of
        (is, g') \<Rightarrow>
          Inr (foldl (\<lambda>m i. sgd_update m (x_aqi ! i) (x_fire ! i) (y_next ! i)) m is, g'))"
  using assms(3) by (simp add: sgd_train_def sgd_loop_fold [OF assms])

lemma sgd_train_total:
  assumes "length x_aqi = length y_next" "length x_fire = length y_next"
  shows "\<exists>m' g'. sgd_train draw x_aqi x_fire y_next k (m, g) = Inr (m', g')"
proof (cases "y_next = []")
  case True
  then show ?thesis by (simp add: sgd_train_def)
next
  case False
  then show ?thesis
    by (simp add: sgd_train_fold [OF assms False] split: prod.splits)
qed

lemma rollout_three:
  "rollout (w0, w1, w2) future_fire last_date [1 ..< 3 + 1] ([], [], seed_aqi) =
     (let p1 = max 0 (w0 + w1 * seed_aqi + w2 * future_fire);
          p2 = max 0 (w0 + w1 * p1 + w2 * future_fire);
          p3 = max 0 (w0 + w1 * p2 + w2 * future_fire)
      in ([date_of (add_days last_date 1), date_of (add_days last_date 2),
           date_of (add_days last_date 3)], [p1, p2, p3], p3))"
  unfolding range_forecast_days by (simp add: Let_def)

text \<open>What the full path computes, spelled out.\<close>

lemma full_model_forecast_cases:
  assumes "5 \<le> length df"
  obtains model :: SimpleLinearTimeModel and g' where
    "full_model_forecast draw now fire_df last_fire_date df g =
       (case last_fire_date of
          None \<Rightarrow> Inl (UnboundLocalError, g')
        | Some lfd \<Rightarrow>
           (case seed_row lfd df of
              Inl e \<Rightarrow> Inl (e, g')
            | Inr last_row \<Rightarrow>
                (case rollout (unscale (max 1 (mean (fst (training_samples df))))
                                 (max 1 (mean (fst (snd (training_samples df))))) (w model))
                        (fire_intensity last_row) lfd [1 ..< 3 + 1] ([], [], aqi last_row) of
                   (dates, aqis, _) \<Rightarrow>
                      Inr (\<lparr>forecast_dates = dates,
                            fire_event_time = fire_event_time_of now fire_df,
                            forecast_aqi = aqis\<rparr>, g'))))"
proof -
  obtain xa xf yn where ts: "training_samples df = (xa, xf, yn)"
    by (cases "training_samples df")
  from length_training_samples [OF ts] assms
  have len: "length xa = length yn" "length xf = length yn" "length xa \<noteq> 0" "length xf \<noteq> 0"
    by auto
  have sf: "scale_factors xa xf = Inr (max 1 (mean xa), max 1 (mean xf))"
    using len by (simp add: scale_factors_def mean_def)
  from sgd_train_total [of "map (\<lambda>a. a / max 1 (mean xa)) xa" "map (\<lambda>y. y / max 1 (mean xa)) yn"
      "map (\<lambda>f. f / max 1 (mean xf)) xf" draw 4000 "init_model (1 / 1000)" g] len
  obtain model g' where
    tr: "sgd_train draw (map (\<lambda>a. a / max 1 (mean xa)) xa) (map (\<lambda>f. f / max 1 (mean xf)) xf)
           (map (\<lambda>y. y / max 1 (mean xa)) yn) 4000 (init_model (1 / 1000), g) = Inr (model, g')"
    by auto
  show ?thesis
    by (rule that [of g' model])
       (simp add: full_model_forecast_def ts sf tr Let_def
          split: option.splits sum.splits prod.splits)
qed

lemma full_model_forecast_nonneg:
  assumes "5 \<le> length df"
    and "full_model_forecast draw now fire_df last_fire_date df g = Inr (fc, g')"
  shows "\<forall>a \<in> set (forecast_aqi fc). 0 \<le> a"
proof -
  obtain model :: SimpleLinearTimeModel and g1 where
    c: "full_model_forecast draw now fire_df last_fire_date df g =
       (case last_fire_date of
          None \<Rightarrow> Inl (UnboundLocalError, g1)
        | Some lfd \<Rightarrow>
           (case seed_row lfd df of
              Inl e \<Rightarrow> Inl (e, g1)
            | Inr last_row \<Rightarrow>
                (case rollout (unscale (max 1 (mean (fst (training_samples df))))
                                 (max 1 (mean (fst (snd (training_samples df))))) (w model))
                        (fire_intensity last_row) lfd [1 ..< 3 + 1] ([], [], aqi last_row) of
                   (dates, aqis, _) \<Rightarrow>
                      Inr (\<lparr>forecast_dates = dates,
                            fire_event_time = fire_event_time_of now fire_df,
                            forecast_aqi = aqis\<rparr>, g1))))"
    by (rule full_model_forecast_cases [OF assms(1), where draw = draw and g = g and now = now
          and fire_df = fire_df and last_fire_date = last_fire_date])
  obtain u0 u1 u2 where u: "unscale (max 1 (mean (fst (training_samples df))))
                                 (max 1 (mean (fst (snd (training_samples df))))) (w model) = (u0, u1, u2)"
    by (metis prod_cases3)
  from assms(2) show ?thesis
    unfolding c u rollout_three
    by (auto simp: Let_def split: option.splits sum.splits)
qed

lemma range_one_four: "[Suc 0 ..< 4] = [1, 2, 3::nat]"
  by code_simp

lemma sgd_update_exact:
  "predict_one m a f = y \<Longrightarrow> sgd_update m a f y = m"
  by (simp add: sgd_update_def split: prod.splits)

lemma foldl_fixed:
  "\<forall>i \<in> set is. step m i = m \<Longrightarrow> foldl step m is = m"
  by (induction "is") simp_all

lemma sgd_train_exact_fit:
  assumes "length x_aqi = length y_next" "length x_fire = length y_next" "y_next \<noteq> []"
    and "\<forall>i < length y_next. predict_one m (x_aqi ! i) (x_fire ! i) = y_next ! i"
  shows "sgd_train draw x_aqi x_fire y_next k (m, g)
           = Inr (m, snd (drawn_indices draw (length y_next) k g))"
proof -
  obtain "is" g' where d: "drawn_indices draw (length y_next) k g = (is, g')"
    by (cases "drawn_indices draw (length y_next) k g")
  from assms(3) have "0 < length y_next" by simp
  from drawn_indices_bound [OF this d] assms(4)
  have "\<forall>i \<in> set is. sgd_update m (x_aqi ! i) (x_fire ! i) (y_next ! i) = m"
    by (simp add: sgd_update_exact)
  then have "foldl (\<lambda>m i. sgd_update m (x_aqi ! i) (x_fire ! i) (y_next ! i)) m is = m"
    by (rule foldl_fixed)
  with d show ?thesis
    by (simp add: sgd_train_fold [OF assms(1-3)])
qed

text \<open>A full-path run that can be followed by hand: five days with AQI 2 and fire
  intensity 4 are fitted exactly by the initial weights, so training leaves them as they
  are.\<close>

lemma full_model_forecast_steady:
  "full_model_forecast draw now fire_df (Some 345600)
     [\<lparr>date = 0, aqi = 2, fire_intensity = 4\<rparr>, \<lparr>date = 1, aqi = 2, fire_intensity = 4\<rparr>,
      \<lparr>date = 2, aqi = 2, fire_intensity = 4\<rparr>, \<lparr>date = 3, aqi = 2, fire_intensity = 4\<rparr>,
      \<lparr>date = 4, aqi = 2, fire_intensity = 4\<rparr>] g
   = Inr (\<lparr>forecast_dates = [5, 6, 7], fire_event_time = fire_event_time_of now fire_df,
           forecast_aqi = [2, 2, 2]\<rparr>,
          snd (drawn_indices draw 4 4000 g))"
proof -
  let ?df = "[\<lparr>date = 0, aqi = 2, fire_intensity = 4\<rparr>, \<lparr>date = 1, aqi = 2, fire_intensity = 4\<rparr>,
      \<lparr>date = 2, aqi = 2, fire_intensity = 4\<rparr>, \<lparr>date = 3, aqi = 2, fire_intensity = 4\<rparr>,
      \<lparr>date = 4, aqi = 2, fire_intensity = 4\<rparr>]"
  have ts: "training_samples ?df = ([2, 2, 2, 2], [4, 4, 4, 4], [2, 2, 2, 2])"
    by (simp add: training_samples_def range_four)
  have sf: "scale_factors [2, 2, 2, 2] [4, 4, 4, 4] = Inr (2, 4)"
    by (simp add: scale_factors_def)
  have fit: "\<forall>i < length [1, 1, 1, 1 :: real].
          predict_one (init_model (1 / 1000)) ([1, 1, 1, 1] ! i) ([1, 1, 1, 1] ! i) = [1, 1, 1, 1] ! i"
    by (simp add: predict_one_def init_model_def less_Suc_eq numeral_eq_Suc nth_Cons')
  have tr: "sgd_train draw [1, 1, 1, 1] [1, 1, 1, 1] [1, 1, 1, 1] 4000 (init_model (1 / 1000), g)
              = Inr (init_model (1 / 1000), snd (drawn_indices draw 4 4000 g))"
  proof -
    have four: "length [1, 1, 1, 1 :: real] = 4" by simp
    show ?thesis
      using sgd_train_exact_fit [OF _ _ _ fit, of draw 4000 g] unfolding four by simp
  qed
  have sr: "seed_row 345600 ?df = Inr \<lparr>date = 4, aqi = 2, fire_intensity = 4\<rparr>"
    by (simp add: seed_row_def date_of_def)
  show ?thesis
    by (simp add: full_model_forecast_def ts sf tr [unfolded init_model_def] sr unscale_def
        init_model_def range_one_four Let_def date_of_def add_days_def)
qed

lemma fire_event_time_of_clock:
  "fires \<noteq> [] \<Longrightarrow> fire_event_time_of now1 fires = fire_event_time_of now2 fires"
  by (simp add: fire_event_time_of_def)

lemma fallback_forecast_clock:
  "fires \<noteq> [] \<Longrightarrow>
     fallback_forecast now1 fires (fire_daily_of fires) = fallback_forecast now2 fires (fire_daily_of fires)"
  by (simp add: fallback_forecast_fire)

lemma full_model_forecast_clock:
  assumes "fires \<noteq> []"
  shows "full_model_forecast draw now1 fires lfd df g = full_model_forecast draw now2 fires lfd df g"
  unfolding full_model_forecast_def fire_event_time_of_clock [OF assms, of now1 now2] ..

lemma lambda_handler_clock:
  assumes "fires \<noteq> []"
  shows "lambda_handler draw faulty now1 fires air_quality s
       = lambda_handler draw faulty now2 fires air_quality s"
  unfolding lambda_handler_def Let_def fallback_forecast_clock [OF assms, of now1 now2]
    full_model_forecast_clock [OF assms, of draw now1 _ _ _ now2] ..

lemma lambda_handler_full_path:
  assumes "5 \<le> length (merged_series (aqi_daily_of air_quality) (fire_daily_of fires))"
  shows "lambda_handler draw no_faults now fires air_quality s =
     (case full_model_forecast draw now fires (last_fire_date_of fires)
             (merged_series (aqi_daily_of air_quality) (fire_daily_of fires)) (rng s) of
        Inl (e, g) \<Rightarrow>
          (Inl e, s\<lparr>connects := connects s + 1, open_conns := open_conns s + 1,
                    open_cursors := open_cursors s + 1, rng := g\<rparr>)
      | Inr (fc, g) \<Rightarrow>
          store_and_close no_faults fc (forecast_response (forecast_dates fc))
            (s\<lparr>connects := connects s + 1, open_conns := open_conns s + 1,
               open_cursors := open_cursors s + 1, rng := g\<rparr>))"
  using assms by (simp add: lambda_handler_def no_faults_def Let_def split: sum.splits prod.splits)

lemma merged_five_days:
  "merged_series (aqi_daily_of [(0, 50), (86400, 55), (172800, 52), (259200, 60), (345600, 58)])
       (fire_daily_of fires) =
     [\<lparr>date = 0, aqi = 50, fire_intensity = fillna 0 (map_of (fire_daily_of fires) 0)\<rparr>,
      \<lparr>date = 1, aqi = 55, fire_intensity = fillna 0 (map_of (fire_daily_of fires) 1)\<rparr>,
      \<lparr>date = 2, aqi = 52, fire_intensity = fillna 0 (map_of (fire_daily_of fires) 2)\<rparr>,
      \<lparr>date = 3, aqi = 60, fire_intensity = fillna 0 (map_of (fire_daily_of fires) 3)\<rparr>,
      \<lparr>date = 4, aqi = 58, fire_intensity = fillna 0 (map_of (fire_daily_of fires) 4)\<rparr>]"
  unfolding merged_series_rows
  by (simp add: aqi_daily_of_def groupby_mean_def mean_def date_of_def)

text \<open>Five days of AQI readings and no fire row: line 155 reads \<open>last_fire_date\<close>, which
  was never assigned.\<close>

lemma handler_no_fire_rows:
  "\<exists>g1. lambda_handler draw no_faults now []
          [(0, 50), (86400, 55), (172800, 52), (259200, 60), (345600, 58)] s
     = (Inl UnboundLocalError,
        s\<lparr>connects := connects s + 1, open_conns := open_conns s + 1,
          open_cursors := open_cursors s + 1, rng := g1\<rparr>)"
proof -
  let ?aq = "[(0, 50), (86400, 55), (172800, 52), (259200, 60), (345600, 58)] :: (int \<times> int) list"
  let ?df = "merged_series (aqi_daily_of ?aq) (fire_daily_of [])"
  have l: "5 \<le> length ?df" unfolding merged_five_days by simp
  obtain model :: SimpleLinearTimeModel and g1 where
    "full_model_forecast draw now [] (last_fire_date_of []) ?df (rng s) = Inl (UnboundLocalError, g1)"
    by (rule full_model_forecast_cases [OF l, where draw = draw and g = "rng s" and now = now
          and fire_df = "[]" and last_fire_date = "last_fire_date_of []"])
       (simp add: last_fire_date_of_def)
  then show ?thesis
    by (intro exI [of _ g1]) (simp add: lambda_handler_full_path [OF l])
qed

text \<open>The same readings and one fire row dated before all of them: no merged row is on
  or before the last fire date, and \<open>iloc[-1]\<close> of line 156 raises.\<close>

lemma handler_fire_before_aqi:
  "\<exists>g1. lambda_handler draw no_faults now [(- 1, 300)]
          [(0, 50), (86400, 55), (172800, 52), (259200, 60), (345600, 58)] s
     = (Inl IndexError,
        s\<lparr>connects := connects s + 1, open_conns := open_conns s + 1,
          open_cursors := open_cursors s + 1, rng := g1\<rparr>)"
proof -
  let ?aq = "[(0, 50), (86400, 55), (172800, 52), (259200, 60), (345600, 58)] :: (int \<times> int) list"
  let ?df = "merged_series (aqi_daily_of ?aq) (fire_daily_of [(- 1, 300)])"
  have l: "5 \<le> length ?df" unfolding merged_five_days by simp
  have lf: "last_fire_date_of [(- 1, 300)] = Some (- 86400)"
    by (simp add: last_fire_date_of_eq to_datetime_def)
  have sr: "seed_row (- 86400) ?df = Inl IndexError"
    unfolding merged_five_days by (simp add: seed_row_def date_of_def)
  obtain model :: SimpleLinearTimeModel and g1 where
    "full_model_forecast draw now [(- 1, 300)] (last_fire_date_of [(- 1, 300)]) ?df (rng s)
       = Inl (IndexError, g1)"
    by (rule full_model_forecast_cases [OF l, where draw = draw and g = "rng s" and now = now
          and fire_df = "[(- 1, 300)]" and last_fire_date = "last_fire_date_of [(- 1, 300)]"])
       (simp add: lf sr)
  then show ?thesis
    by (intro exI [of _ g1]) (simp add: lambda_handler_full_path [OF l])
qed

text \<open>Where a seed row exists it is the last merged row dated on or before the last fire
  date, and the rollout runs on its AQI with its fire intensity as the constant fire input.\<close>

lemma seed_row_Inr:
  "seed_row lfd df = Inr r \<longleftrightarrow>
     filter (\<lambda>x. date x \<le> date_of lfd) df \<noteq> [] \<and> r = last (filter (\<lambda>x. date x \<le> date_of lfd) df)"
  by (auto simp: seed_row_def Let_def)

lemma full_model_forecast_seeded:
  assumes "5 \<le> length df" and "seed_row lfd df = Inr r"
  shows "\<exists>(model :: SimpleLinearTimeModel) g'.
           full_model_forecast draw now fire_df (Some lfd) df g =
             (case rollout (unscale (max 1 (mean (fst (training_samples df))))
                                 (max 1 (mean (fst (snd (training_samples df))))) (w model))
                        (fire_intensity r) lfd [1 ..< 3 + 1] ([], [], aqi r) of
                   (dates, aqis, _) \<Rightarrow>
                      Inr (\<lparr>forecast_dates = dates,
                            fire_event_time = fire_event_time_of now fire_df,
                            forecast_aqi = aqis\<rparr>, g'))"
proof -
  obtain model :: SimpleLinearTimeModel and g1 where
    c: "full_model_forecast draw now fire_df (Some lfd) df g =
       (case Some lfd of
          None \<Rightarrow> Inl (UnboundLocalError, g1)
        | Some lfd \<Rightarrow>
           (case seed_row lfd df of
              Inl e \<Rightarrow> Inl (e, g1)
            | Inr last_row \<Rightarrow>
                (case rollout (unscale (max 1 (mean (fst (training_samples df))))
                                 (max 1 (mean (fst (snd (training_samples df))))) (w model))
                        (fire_intensity last_row) lfd [1 ..< 3 + 1] ([], [], aqi last_row) of
                   (dates, aqis, _) \<Rightarrow>
                      Inr (\<lparr>forecast_dates = dates,
                            fire_event_time = fire_event_time_of now fire_df,
                            forecast_aqi = aqis\<rparr>, g1))))"
    by (rule full_model_forecast_cases [OF assms(1), where draw = draw and g = g and now = now
          and fire_df = fire_df and last_fire_date = "Some lfd"])
  show ?thesis
    unfolding c by (intro exI [of _ model] exI [of _ g1]) (simp add: assms(2))
qed

text \<open>Every return of the handler has closed what the invocation opened.\<close>

lemma store_and_close_Inr:
  assumes "store_and_close faulty fc resp s = (Inr r, s')"
  shows "connects s' = connects s \<and> open_conns s' = open_conns s - 1
       \<and> open_cursors s' = open_cursors s - 1 \<and> rng s' = rng s"
  using assms
  by (auto simp: store_and_close_def create_prediction_table_def insert_timeseries_def
      close_all_def split: if_splits sum.splits prod.splits)

lemma store_and_close_Inl:
  assumes "store_and_close faulty fc resp s = (Inl e, s')"
  shows "s' = s"
  using assms
  by (auto simp: store_and_close_def create_prediction_table_def split: if_splits sum.splits)

lemma lambda_handler_return_closes:
  assumes "lambda_handler draw faulty now fires air_quality s = (Inr r, s')"
  shows "connects s' = connects s + 1 \<and> open_conns s' = open_conns s
       \<and> open_cursors s' = open_cursors s"
  using assms
  by (auto simp: lambda_handler_def Let_def split: if_splits sum.splits prod.splits
      dest!: store_and_close_Inr)

lemma lambda_handler_raise_leaks:
  assumes "lambda_handler draw faulty now fires air_quality s = (Inl e, s')"
    and "e \<noteq> DatabaseError Connect"
  shows "connects s' = connects s + 1 \<and> open_conns s' = open_conns s + 1
       \<and> open_cursors s' = open_cursors s + 1"
  using assms
  by (auto simp: lambda_handler_def Let_def split: if_splits sum.splits prod.splits
      dest!: store_and_close_Inl)

lemma full_model_forecast_explicit:
  assumes "5 \<le> length df"
  shows "full_model_forecast draw now fire_df last_fire_date df g =
    (let xa = fst (training_samples df);
         xf = fst (snd (training_samples df));
         yn = snd (snd (training_samples df));
         ma = max 1 (mean xa);
         mf = max 1 (mean xf);
         xs = map (\<lambda>a. a / ma) xa;
         fs = map (\<lambda>f. f / mf) xf;
         ys = map (\<lambda>y. y / ma) yn;
         d = drawn_indices draw (length df - 1) 4000 g;
         model = foldl (\<lambda>m i. sgd_update m (xs ! i) (fs ! i) (ys ! i))
                   (init_model (1 / 1000)) (fst d)
     in case last_fire_date of
          None \<Rightarrow> Inl (UnboundLocalError, snd d)
        | Some lfd \<Rightarrow>
            (case seed_row lfd df of
               Inl e \<Rightarrow> Inl (e, snd d)
             | Inr row \<Rightarrow>
                 (case unscale ma mf (w model) of
                    (w0, w1, w2) \<Rightarrow>
                      (let p1 = max 0 (w0 + w1 * aqi row + w2 * fire_intensity row);
                           p2 = max 0 (w0 + w1 * p1 + w2 * fire_intensity row);
                           p3 = max 0 (w0 + w1 * p2 + w2 * fire_intensity row)
                       in Inr (\<lparr>forecast_dates = [date_of (add_days lfd 1),
                                  date_of (add_days lfd 2), date_of (add_days lfd 3)],
                                fire_event_time = fire_event_time_of now fire_df,
                                forecast_aqi = [p1, p2, p3]\<rparr>, snd d)))))"
proof -
  obtain xa xf yn where ts: "training_samples df = (xa, xf, yn)"
    by (cases "training_samples df")
  from length_training_samples [OF ts] assms
  have len: "length xa = length yn" "length xf = length yn" "length xa \<noteq> 0" "length xf \<noteq> 0"
    "yn \<noteq> []" "length yn = length df - 1"
    by auto
  have sf: "scale_factors xa xf = Inr (max 1 (mean xa), max 1 (mean xf))"
    using len by (simp add: scale_factors_def mean_def)
  let ?xs = "map (\<lambda>a. a / max 1 (mean xa)) xa"
  let ?fs = "map (\<lambda>f. f / max 1 (mean xf)) xf"
  let ?ys = "map (\<lambda>y. y / max 1 (mean xa)) yn"
  have tr: "sgd_train draw ?xs ?fs ?ys 4000 (init_model (1 / 1000), g) =
      Inr (foldl (\<lambda>m i. sgd_update m (?xs ! i) (?fs ! i) (?ys ! i)) (init_model (1 / 1000))
             (fst (drawn_indices draw (length df - 1) 4000 g)),
           snd (drawn_indices draw (length df - 1) 4000 g))"
    using sgd_train_fold [of ?xs ?ys ?fs draw 4000 "init_model (1 / 1000)" g] len
    by (simp add: case_prod_beta)
  show ?thesis
    by (simp add: full_model_forecast_def ts sf tr Let_def range_one_four
        split: option.splits sum.splits prod.splits)
qed


lemma store_and_close_no_faults:
  "fst (store_and_close no_faults fc resp s) = Inr resp
   \<and> rng (snd (store_and_close no_faults fc resp s)) = rng s"
proof -
  from insert_timeseries_no_faults [of "forecast_dates fc" "fire_event_time fc" "forecast_aqi fc" s]
  obtain new where
    "insert_timeseries no_faults (forecast_dates fc) (fire_event_time fc) (forecast_aqi fc) s
       = Inr (s\<lparr>predictions := predictions s @ new\<rparr>)"
    by blast
  then show ?thesis
    by (simp add: store_and_close_def create_prediction_table_def no_faults_def close_all_def)
qed

lemma lambda_handler_no_faults_outcome:
  "fst (lambda_handler draw no_faults now fires air_quality s) =
     (if length (merged_series (aqi_daily_of air_quality) (fire_daily_of fires)) < 5
      then Inr fallback_response
      else case full_model_forecast draw now fires (last_fire_date_of fires)
                  (merged_series (aqi_daily_of air_quality) (fire_daily_of fires)) (rng s) of
             Inl (e, g) \<Rightarrow> Inl e
           | Inr (fc, g) \<Rightarrow> Inr (forecast_response (forecast_dates fc)))"
  "rng (snd (lambda_handler draw no_faults now fires air_quality s)) =
     (if length (merged_series (aqi_daily_of air_quality) (fire_daily_of fires)) < 5
      then rng s
      else case full_model_forecast draw now fires (last_fire_date_of fires)
                  (merged_series (aqi_daily_of air_quality) (fire_daily_of fires)) (rng s) of
             Inl (e, g) \<Rightarrow> g
           | Inr (fc, g) \<Rightarrow> g)"
  by (simp_all add: lambda_handler_def Let_def store_and_close_no_faults
      split: sum.splits prod.splits)
     (simp_all add: no_faults_def)

lemma full_model_forecast_generator:
  assumes "5 \<le> length df"
  shows "(case full_model_forecast draw now fire_df last_fire_date df g of
            Inl (e, g') \<Rightarrow> g' | Inr (fc, g') \<Rightarrow> g')
         = snd (drawn_indices draw (length df - 1) 4000 g)"
  unfolding full_model_forecast_explicit [OF assms]
  by (simp add: Let_def split: option.splits sum.splits prod.splits)

lemma sgd_update_explicit:
  "sgd_update m a f y =
     (case w m of (w0, w1, w2) \<Rightarrow>
        (let err = w0 + w1 * a + w2 * f - y
         in m\<lparr>w := (w0 - lr m * (2 * err), w1 - lr m * (2 * err * a),
                     w2 - lr m * (2 * err * f))\<rparr>))"
  by (simp add: sgd_update_def predict_one_def Let_def split: prod.splits)

lemma drawn_indices_step:
  "drawn_indices draw n (Suc k) g =
     (fst (draw g) mod n # fst (drawn_indices draw n k (snd (draw g))),
      snd (drawn_indices draw n k (snd (draw g))))"
  by (simp add: randrange_def split: prod.splits)

lemma drawn_indices_counter:
  "snd (drawn_indices (\<lambda>g. (g, Suc g)) n k g) = g + k"
  by (induction k arbitrary: g) (simp_all add: drawn_indices_step del: drawn_indices.simps(2))

text \<open>The scenario of five days with fires on the third and fourth: the full-model path
  returns the three days after the last fire date.\<close>

lemma handler_five_days_response:
  "fst (lambda_handler draw no_faults now [(2, 10), (3, 10)]
          [(0, 50), (86400, 55), (172800, 52), (259200, 60), (345600, 58)] s)
     = Inr (forecast_response [4, 5, 6])"
proof -
  let ?aq = "[(0, 50), (86400, 55), (172800, 52), (259200, 60), (345600, 58)] :: (int \<times> int) list"
  let ?df = "merged_series (aqi_daily_of ?aq) (fire_daily_of [(2, 10), (3, 10)])"
  have l: "5 \<le> length ?df" "\<not> length ?df < 5" unfolding merged_five_days by simp_all
  have lf: "last_fire_date_of [(2, 10), (3, 10)] = Some 259200"
    by (simp add: last_fire_date_of_eq to_datetime_def)
  have sr: "seed_row 259200 ?df = Inr \<lparr>date = 3, aqi = 60, fire_intensity = 10\<rparr>"
    unfolding merged_five_days
    by (simp add: seed_row_def date_of_def fire_daily_of_def groupby_mean_def mean_def fillna_def)
  show ?thesis
    unfolding lambda_handler_no_faults_outcome(1) full_model_forecast_explicit [OF l(1)] lf
    using l(2) by (simp add: sr Let_def date_of_def add_days_def split: prod.splits)
qed

subsection \<open>Training on no samples\<close>

text \<open>
  C6. \<open>sgd_train\<close> called with an empty target list returns normally, for every weight
  triple, learning rate, step count and generator state, and returns the model and the
  generator exactly as it received them.
\<close>

theorem sgd_train_empty_noop:
  "sgd_train draw x_aqi x_fire [] epochs (\<lparr>w = (w0, w1, w2), lr = rate\<rparr>, g)
     = Inr (\<lparr>w = (w0, w1, w2), lr = rate\<rparr>, g)"
  by (simp add: sgd_train_def)

theorem sgd_train_empty_noop_witness:
  "sgd_train (\<lambda>g. (g, Suc g)) [] [] [] 2000 (\<lparr>w = (0, 1 / 2, 1 / 2), lr = 1 / 1000\<rparr>, 7)
     = Inr (\<lparr>w = (0, 1 / 2, 1 / 2), lr = 1 / 1000\<rparr>, 7)"
  using sgd_train_empty_noop [where draw = "\<lambda>g. (g, Suc g)" and x_aqi = "[]" and x_fire = "[]"
      and epochs = 2000 and ?w0.0 = 0 and ?w1.0 = "1 / 2" and ?w2.0 = "1 / 2"
      and rate = "1 / 1000" and g = 7]
  by simp

subsection \<open>Scaling and unscaling\<close>

text \<open>
  C3. On the full-model path (at least five merged rows) the two divisions of lines 136-137
  are defined, the scaling factors are \<open>max 1\<close> of the means of the sample features, both are
  at least 1, and for every scaled weight triple and all inputs \<open>a\<close>, \<open>f\<close> the model with the
  unscaled weights of lines 150-152 applied to \<open>(a, f)\<close> equals \<open>mean_aqi\<close> times the scaled
  model applied to \<open>(a / mean_aqi, f / mean_fire)\<close>. The arithmetic is that of the reals.
\<close>

theorem scale_unscale_roundtrip:
  assumes "5 \<le> length df"
    and "training_samples df = (x_aqi, x_fire, y_next)"
  shows "\<exists>mean_aqi mean_fire.
           scale_factors x_aqi x_fire = Inr (mean_aqi, mean_fire)
         \<and> mean_aqi = max 1 (mean x_aqi) \<and> mean_fire = max 1 (mean x_fire)
         \<and> 1 \<le> mean_aqi \<and> 1 \<le> mean_fire
         \<and> (\<forall>w0 w1 w2 r a f.
               predict_one \<lparr>w = unscale mean_aqi mean_fire (w0, w1, w2), lr = r\<rparr> a f
             = mean_aqi * predict_one \<lparr>w = (w0, w1, w2), lr = r\<rparr> (a / mean_aqi) (f / mean_fire))"
proof -
  have len: "length x_aqi \<noteq> 0" "length x_fire \<noteq> 0"
    using assms(1) length_training_samples [OF assms(2)] by auto
  let ?ma = "max 1 (mean x_aqi)" and ?mf = "max 1 (mean x_fire)"
  have sf: "scale_factors x_aqi x_fire = Inr (?ma, ?mf)"
    using len by (simp add: scale_factors_def mean_def)
  have pos: "1 \<le> ?ma" "1 \<le> ?mf" by simp_all
  then have nz: "?ma \<noteq> 0" "?mf \<noteq> 0" by linarith+
  show ?thesis
    using sf pos predict_unscale [OF nz] by blast
qed

theorem scale_unscale_roundtrip_witness:
  "5 \<le> length [\<lparr>date = 0, aqi = 50, fire_intensity = 0\<rparr>, \<lparr>date = 1, aqi = 55, fire_intensity = 0\<rparr>,
          \<lparr>date = 2, aqi = 52, fire_intensity = 10\<rparr>, \<lparr>date = 3, aqi = 60, fire_intensity = 10\<rparr>,
          \<lparr>date = 4, aqi = 58, fire_intensity = 0\<rparr>]
   \<and> training_samples [\<lparr>date = 0, aqi = 50, fire_intensity = 0\<rparr>, \<lparr>date = 1, aqi = 55, fire_intensity = 0\<rparr>,
          \<lparr>date = 2, aqi = 52, fire_intensity = 10\<rparr>, \<lparr>date = 3, aqi = 60, fire_intensity = 10\<rparr>,
          \<lparr>date = 4, aqi = 58, fire_intensity = 0\<rparr>]
       = ([50, 55, 52, 60], [0, 0, 10, 10], [55, 52, 60, 58])
   \<and> scale_factors [50, 55, 52, 60] [0, 0, 10, 10] = Inr (217 / 4, 5)
   \<and> predict_one \<lparr>w = unscale (217 / 4) 5 (0, 1 / 2, 1 / 2), lr = 1 / 1000\<rparr> 58 10
       = 217 / 4 * predict_one \<lparr>w = (0, 1 / 2, 1 / 2), lr = 1 / 1000\<rparr> (58 / (217 / 4)) (10 / 5)"
proof -
  let ?df = "[\<lparr>date = 0, aqi = 50, fire_intensity = 0\<rparr>, \<lparr>date = 1, aqi = 55, fire_intensity = 0\<rparr>,
          \<lparr>date = 2, aqi = 52, fire_intensity = 10\<rparr>, \<lparr>date = 3, aqi = 60, fire_intensity = 10\<rparr>,
          \<lparr>date = 4, aqi = 58, fire_intensity = 0\<rparr>]"
  have h1: "5 \<le> length ?df" by simp
  have h2: "training_samples ?df = ([50, 55, 52, 60], [0, 0, 10, 10], [55, 52, 60, 58])"
    by (simp add: training_samples_def range_four)
  have sf: "scale_factors [50, 55, 52, 60] [0, 0, 10, 10] = Inr (217 / 4, 5)"
    by (simp add: scale_factors_def)
  from scale_unscale_roundtrip [OF h1 h2] obtain ma mf where
    a: "scale_factors [50, 55, 52, 60] [0, 0, 10, 10] = Inr (ma, mf)" and
    b: "\<forall>w0 w1 w2 r a f.
          predict_one \<lparr>w = unscale ma mf (w0, w1, w2), lr = r\<rparr> a f
        = ma * predict_one \<lparr>w = (w0, w1, w2), lr = r\<rparr> (a / ma) (f / mf)"
    by blast
  from a sf have "ma = 217 / 4" "mf = 5" by simp_all
  with b have "predict_one \<lparr>w = unscale (217 / 4) 5 (0, 1 / 2, 1 / 2), lr = 1 / 1000\<rparr> 58 10
       = 217 / 4 * predict_one \<lparr>w = (0, 1 / 2, 1 / 2), lr = 1 / 1000\<rparr> (58 / (217 / 4)) (10 / 5)"
    by blast
  with h1 h2 sf show ?thesis by blast
qed

subsection \<open>The rollout\<close>

text \<open>
  C4. The loop of lines 170-177 stores, for each of the three horizon days, the maximum of
  0 and \<open>w0 + w1 * prev + w2 * future_fire\<close>, where \<open>prev\<close> is the seed AQI on day 1 and the
  value stored for the day before on days 2 and 3. In particular, when the linear model is
  negative on day 1, 0 is stored and 0 is the AQI input of day 2.
\<close>

theorem rollout_clamp_feed_forward:
  "rollout (w0, w1, w2) future_fire last_date [1 ..< 3 + 1] ([], [], seed_aqi) =
     (let p1 = max 0 (w0 + w1 * seed_aqi + w2 * future_fire);
          p2 = max 0 (w0 + w1 * p1 + w2 * future_fire);
          p3 = max 0 (w0 + w1 * p2 + w2 * future_fire)
      in ([date_of (add_days last_date 1), date_of (add_days last_date 2),
           date_of (add_days last_date 3)], [p1, p2, p3], p3))
   \<and> (w0 + w1 * seed_aqi + w2 * future_fire < 0 \<longrightarrow>
        fst (snd (rollout (w0, w1, w2) future_fire last_date [1 ..< 3 + 1] ([], [], seed_aqi)))
          = (let p2 = max 0 (w0 + w1 * 0 + w2 * future_fire)
             in [0, p2, max 0 (w0 + w1 * p2 + w2 * future_fire)]))"
  unfolding range_forecast_days by (simp add: Let_def max_def)

theorem rollout_clamp_feed_forward_witness:
  "- 1 + 1 / 2 * 1 + 1 / 2 * 0 < (0::real)
   \<and> rollout (- 1, 1 / 2, 1 / 2) 0 0 [1 ..< 3 + 1] ([], [], 1) = ([1, 2, 3], [0, 0, 0], 0)"
  using rollout_clamp_feed_forward [where ?w0.0 = "- 1" and ?w1.0 = "1 / 2" and ?w2.0 = "1 / 2"
      and future_fire = 0 and last_date = 0 and seed_aqi = 1]
  by (simp add: date_of_def add_days_def)

subsection \<open>The merged series\<close>

text \<open>
  C2. The merged series built from the two query results has exactly one row per distinct
  calendar date of the AQI readings, in ascending order of date; the fire intensity of a row
  is the mean of the brightness readings of its date when the fire rows have that date, and
  0 otherwise; with no AQI reading the merged series is empty.
\<close>

theorem merged_series_invariant:
  "let df = merged_series (aqi_daily_of aqi_df) (fire_daily_of fire_df)
   in map date df = sort (remdups (map (\<lambda>r. date_of (fst r)) aqi_df))
    \<and> distinct (map date df) \<and> sorted (map date df)
    \<and> set (map date df) = (\<lambda>r. date_of (fst r)) ` set aqi_df
    \<and> (\<forall>r \<in> set df. fire_intensity r =
          (if date r \<in> fst ` set fire_df
           then mean (map snd (filter (\<lambda>x. fst x = date r) fire_df)) else 0))
    \<and> (aqi_df = [] \<longrightarrow> df = [])"
proof -
  let ?df = "merged_series (aqi_daily_of aqi_df) (fire_daily_of fire_df)"
  have d: "map date ?df = sort (remdups (map (\<lambda>r. date_of (fst r)) aqi_df))"
    by (rule dates_merged_series)
  have f: "fire_intensity r =
          (if date r \<in> fst ` set fire_df
           then mean (map snd (filter (\<lambda>x. fst x = date r) fire_df)) else 0)"
    if "r \<in> set ?df" for r
    using that by (force simp: merged_series_rows map_of_fire_daily fillna_def)
  have e: "aqi_df = [] \<longrightarrow> ?df = []"
    by (simp add: merged_series_def merge_left_def aqi_daily_of_def)
  have s: "set (map date ?df) = (\<lambda>r. date_of (fst r)) ` set aqi_df"
    unfolding d by simp
  have "distinct (map date ?df)" "sorted (map date ?df)"
    unfolding d by simp_all
  with d f e s show ?thesis
    unfolding Let_def by blast
qed

theorem merged_series_invariant_witness:
  "merged_series (aqi_daily_of [(86400, 10), (86401, 20), (0, 5)])
                 (fire_daily_of [(1, 300), (1, 320), (7, 1)])
     = [\<lparr>date = 0, aqi = 5, fire_intensity = 0\<rparr>, \<lparr>date = 1, aqi = 15, fire_intensity = 310\<rparr>]
   \<and> sort (remdups (map (\<lambda>r. date_of (fst r)) [(86400, 10), (86401, 20), (0, 5 :: int)])) = [0, 1]
   \<and> mean (map snd (filter (\<lambda>x. fst x = 1) [(1, 300), (1, 320), (7 :: int, 1)])) = 310"
  using merged_series_invariant [of "[(86400, 10), (86401, 20), (0, 5)]" "[(1, 300), (1, 320), (7, 1)]"]
  by (simp add: merged_series_def merge_left_def aqi_daily_of_def fire_daily_of_def groupby_mean_def
        mean_def date_of_def fillna_def)

subsection \<open>The persistence sink\<close>

text \<open>
  C7, as the code has it. When no statement raises, \<open>_insert_timeseries\<close> appends rows and
  changes nothing else: the appended rows have pairwise different dates, their dates are
  exactly the dates of the batch that the table did not hold, and each carries the fire
  event time and a value the batch pairs with its date. Running the same batch again
  leaves the table as the first run left it. A table in which no date occurs twice stays
  so; rows that were already there, duplicated or not, are never removed.
\<close>

theorem insert_timeseries_idempotent:
  "\<exists>new. insert_timeseries no_faults dates fet aqi_values s
             = Inr (s\<lparr>predictions := predictions s @ new\<rparr>)
        \<and> distinct (map prediction_date new)
        \<and> set (map prediction_date new)
            = fst ` set (zip dates aqi_values) - set (map prediction_date (predictions s))
        \<and> (\<forall>p \<in> set new. fire_event_timestamp p = fet
              \<and> (prediction_date p, predicted_aqi p) \<in> set (zip dates aqi_values))
        \<and> insert_timeseries no_faults dates fet aqi_values (s\<lparr>predictions := predictions s @ new\<rparr>)
             = Inr (s\<lparr>predictions := predictions s @ new\<rparr>)
        \<and> (distinct (map prediction_date (predictions s))
              \<longrightarrow> distinct (map prediction_date (predictions s @ new)))"
proof -
  from insert_timeseries_no_faults [of dates fet aqi_values s] obtain new where
    n: "insert_timeseries no_faults dates fet aqi_values s
             = Inr (s\<lparr>predictions := predictions s @ new\<rparr>)"
    and r: "distinct (map prediction_date new)"
      "set (map prediction_date new)
         = fst ` set (zip dates aqi_values) - set (map prediction_date (predictions s))"
      "\<forall>p \<in> set new. fire_event_timestamp p = fet
              \<and> (prediction_date p, predicted_aqi p) \<in> set (zip dates aqi_values)"
    by blast
  have "fst ` set (zip dates aqi_values)
          \<subseteq> set (map prediction_date (predictions (s\<lparr>predictions := predictions s @ new\<rparr>)))"
    using r(2) by auto
  then have again: "insert_timeseries no_faults dates fet aqi_values
        (s\<lparr>predictions := predictions s @ new\<rparr>) = Inr (s\<lparr>predictions := predictions s @ new\<rparr>)"
    by (rule insert_timeseries_again)
  have "distinct (map prediction_date (predictions s))
              \<longrightarrow> distinct (map prediction_date (predictions s @ new))"
    using r(1,2) by auto
  with n r again show ?thesis by blast
qed

theorem insert_timeseries_idempotent_witness:
  "insert_timeseries no_faults [5, 6, 6, 7] 3 [1, 2, 4, 8]
     \<lparr>predictions = [\<lparr>prediction_date = 5, fire_event_timestamp = 0, predicted_aqi = 9\<rparr>],
      rng = (), connects = 1, open_cursors = 1, open_conns = 1\<rparr>
   = Inr \<lparr>predictions = [\<lparr>prediction_date = 5, fire_event_timestamp = 0, predicted_aqi = 9\<rparr>,
                          \<lparr>prediction_date = 6, fire_event_timestamp = 3, predicted_aqi = 2\<rparr>,
                          \<lparr>prediction_date = 7, fire_event_timestamp = 3, predicted_aqi = 8\<rparr>],
          rng = (), connects = 1, open_cursors = 1, open_conns = 1\<rparr>
   \<and> distinct (map prediction_date [\<lparr>prediction_date = 5, fire_event_timestamp = 0, predicted_aqi = 9\<rparr>])"
  using insert_timeseries_idempotent [of "[5, 6, 6, 7]" 3 "[1, 2, 4, 8]"
     "\<lparr>predictions = [\<lparr>prediction_date = 5, fire_event_timestamp = 0, predicted_aqi = 9\<rparr>],
      rng = (), connects = 1, open_cursors = 1, open_conns = 1\<rparr>"]
  by (simp add: insert_timeseries_def no_faults_def)

text \<open>
  The table has no uniqueness constraint, and the sink never deletes: from a table that
  already holds a date twice, two runs of a batch leave that date twice.
\<close>

theorem insert_timeseries_duplicates_counterexample:
  "insert_timeseries no_faults [1, 2] 0 [5, 5]
     \<lparr>predictions = [\<lparr>prediction_date = 1, fire_event_timestamp = 0, predicted_aqi = 2\<rparr>,
                     \<lparr>prediction_date = 1, fire_event_timestamp = 0, predicted_aqi = 3\<rparr>],
      rng = (), connects = 1, open_cursors = 1, open_conns = 1\<rparr>
   = Inr \<lparr>predictions = [\<lparr>prediction_date = 1, fire_event_timestamp = 0, predicted_aqi = 2\<rparr>,
                     \<lparr>prediction_date = 1, fire_event_timestamp = 0, predicted_aqi = 3\<rparr>,
                     \<lparr>prediction_date = 2, fire_event_timestamp = 0, predicted_aqi = 5\<rparr>],
      rng = (), connects = 1, open_cursors = 1, open_conns = 1\<rparr>
   \<and> insert_timeseries no_faults [1, 2] 0 [5, 5]
     \<lparr>predictions = [\<lparr>prediction_date = 1, fire_event_timestamp = 0, predicted_aqi = 2\<rparr>,
                     \<lparr>prediction_date = 1, fire_event_timestamp = 0, predicted_aqi = 3\<rparr>,
                     \<lparr>prediction_date = 2, fire_event_timestamp = 0, predicted_aqi = 5\<rparr>],
      rng = (), connects = 1, open_cursors = 1, open_conns = 1\<rparr>
   = Inr \<lparr>predictions = [\<lparr>prediction_date = 1, fire_event_timestamp = 0, predicted_aqi = 2\<rparr>,
                     \<lparr>prediction_date = 1, fire_event_timestamp = 0, predicted_aqi = 3\<rparr>,
                     \<lparr>prediction_date = 2, fire_event_timestamp = 0, predicted_aqi = 5\<rparr>],
      rng = (), connects = 1, open_cursors = 1, open_conns = 1\<rparr>
   \<and> \<not> distinct (map prediction_date
         [\<lparr>prediction_date = 1, fire_event_timestamp = 0, predicted_aqi = 2\<rparr>,
          \<lparr>prediction_date = 1, fire_event_timestamp = 0, predicted_aqi = 3\<rparr>,
          \<lparr>prediction_date = 2, fire_event_timestamp = 0, predicted_aqi = 5\<rparr>])"
  by (simp add: insert_timeseries_def no_faults_def)

subsection \<open>The fallback path\<close>

text \<open>
  C1, as the code has it. Let the merged series have fewer than five rows and the fire rows
  be non-empty, with last fire date \<open>D\<close> and mean brightness \<open>I\<close> on that date. Then the
  forecast handed to the sink is exactly \<open>(D + 1, I * 5)\<close>, \<open>(D + 2, I * 5)\<close>,
  \<open>(D + 3, I * 5)\<close>, with the midnight of \<open>D\<close> as fire event time, and every invocation ends
  in one of two ways. If a statement sent to the store raises, its error ends the
  invocation and the rows of the table are as before. Otherwise the invocation returns
  status 200 with the message \<open>Fallback forecast stored (insufficient history).\<close>, which no
  return of the full-model path carries, and the table has gained those of the three points
  whose date it did not hold: all three when it held none of the dates. In both cases the
  generator is as it was and the outcome does not depend on \<open>draw\<close>: no sample is drawn and
  no model is trained.
\<close>

theorem fallback_path_forecast:
  assumes "fires \<noteq> []"
    and "length (merged_series (aqi_daily_of air_quality) (fire_daily_of fires)) < 5"
  shows "let D = Max (fst ` set fires);
             I = mean (map snd (filter (\<lambda>r. fst r = D) fires));
             fc = \<lparr>forecast_dates = [D + 1, D + 2, D + 3], fire_event_time = to_datetime D,
                   forecast_aqi = [I * 5, I * 5, I * 5]\<rparr>;
             new = filter (\<lambda>(d, a). d \<notin> set (map prediction_date (predictions s)))
                     [(D + 1, I * 5), (D + 2, I * 5), (D + 3, I * 5)];
             resp = \<lparr>statusCode = 200,
                     message = ''Fallback forecast stored (insufficient history).'',
                     message_dates = []\<rparr>;
             s1 = s\<lparr>connects := connects s + 1, open_conns := open_conns s + 1,
                     open_cursors := open_cursors s + 1\<rparr>
         in fallback_forecast now fires (fire_daily_of fires) = fc
          \<and> (\<forall>ds. message resp \<noteq> message (forecast_response ds))
          \<and> lambda_handler draw faulty now fires air_quality s =
              (if faulty Connect then (Inl (DatabaseError Connect), s)
               else if faulty ReadFires then (Inl (DatabaseError ReadFires), s1)
               else if faulty ReadAqi then (Inl (DatabaseError ReadAqi), s1)
               else if faulty CreateTable then (Inl (DatabaseError CreateTable), s1)
               else if faulty Commit then (Inl (DatabaseError Commit), s1)
               else if faulty SelectDates then (Inl (DatabaseError SelectDates), s1)
               else if faulty Insert \<and> new \<noteq> [] then (Inl (DatabaseError Insert), s1)
               else (Inr resp,
                     s\<lparr>connects := connects s + 1,
                       predictions := predictions s @
                         map (\<lambda>(d, a). \<lparr>prediction_date = d,
                                         fire_event_timestamp = to_datetime D,
                                         predicted_aqi = a\<rparr>) new\<rparr>))
          \<and> ((\<forall>op. \<not> faulty op)
               \<and> set [D + 1, D + 2, D + 3] \<inter> set (map prediction_date (predictions s)) = {}
             \<longrightarrow> lambda_handler draw faulty now fires air_quality s =
                   (Inr resp,
                    s\<lparr>connects := connects s + 1,
                      predictions := predictions s @
                        [\<lparr>prediction_date = D + 1, fire_event_timestamp = to_datetime D,
                          predicted_aqi = I * 5\<rparr>,
                         \<lparr>prediction_date = D + 2, fire_event_timestamp = to_datetime D,
                          predicted_aqi = I * 5\<rparr>,
                         \<lparr>prediction_date = D + 3, fire_event_timestamp = to_datetime D,
                          predicted_aqi = I * 5\<rparr>]\<rparr>))"
proof -
  let ?D = "Max (fst ` set fires)"
  let ?I = "mean (map snd (filter (\<lambda>r. fst r = ?D) fires))"
  let ?fc = "\<lparr>forecast_dates = [?D + 1, ?D + 2, ?D + 3], fire_event_time = to_datetime ?D,
                   forecast_aqi = [?I * 5, ?I * 5, ?I * 5]\<rparr>"
  let ?s1 = "s\<lparr>connects := connects s + 1, open_conns := open_conns s + 1,
                     open_cursors := open_cursors s + 1\<rparr>"
  have fb: "fallback_forecast now fires (fire_daily_of fires) = ?fc"
    using fallback_forecast_fire [OF assms(1)] by (simp add: numeral_3_eq_3)
  have d: "distinct (map fst (zip (forecast_dates ?fc) (forecast_aqi ?fc)))"
    by simp
  have msg: "\<forall>ds. ''Fallback forecast stored (insufficient history).''
               \<noteq> message (forecast_response ds)"
    by (simp add: forecast_response_def)
  have h: "lambda_handler draw faulty now fires air_quality s =
          (if faulty Connect then (Inl (DatabaseError Connect), s)
           else if faulty ReadFires then (Inl (DatabaseError ReadFires), ?s1)
           else if faulty ReadAqi then (Inl (DatabaseError ReadAqi), ?s1)
           else store_and_close faulty ?fc fallback_response ?s1)"
    using assms(2) by (simp add: lambda_handler_def Let_def fb)
  show ?thesis
    unfolding Let_def h store_and_close_distinct_faulty [OF d]
    using fb msg by (simp add: close_all_def fallback_response_def Let_def)
qed

theorem fallback_path_forecast_witness:
  "[(3, 1), (1, 2), (3, 5 :: real)] \<noteq> ([] :: (int \<times> real) list)
   \<and> length (merged_series (aqi_daily_of [(86400, 10)]) (fire_daily_of [(3, 1), (1, 2), (3, 5)])) < 5
   \<and> fallback_forecast 1000 [(3, 1), (1, 2), (3, 5)] (fire_daily_of [(3, 1), (1, 2), (3, 5)])
       = \<lparr>forecast_dates = [4, 5, 6], fire_event_time = 259200, forecast_aqi = [15, 15, 15]\<rparr>
   \<and> lambda_handler (\<lambda>g. (g, Suc g)) no_faults 1000 [(3, 1), (1, 2), (3, 5)] [(86400, 10)]
        \<lparr>predictions = [\<lparr>prediction_date = 5, fire_event_timestamp = 0, predicted_aqi = 40\<rparr>],
         rng = 42, connects = 0, open_cursors = 0, open_conns = 0\<rparr>
       = (Inr \<lparr>statusCode = 200, message = ''Fallback forecast stored (insufficient history).'',
               message_dates = []\<rparr>,
          \<lparr>predictions = [\<lparr>prediction_date = 5, fire_event_timestamp = 0, predicted_aqi = 40\<rparr>,
                          \<lparr>prediction_date = 4, fire_event_timestamp = 259200, predicted_aqi = 15\<rparr>,
                          \<lparr>prediction_date = 6, fire_event_timestamp = 259200, predicted_aqi = 15\<rparr>],
           rng = 42, connects = 1, open_cursors = 0, open_conns = 0\<rparr>)
   \<and> lambda_handler (\<lambda>g. (g, Suc g)) no_faults 1000 [(3, 1), (1, 2), (3, 5)] [(86400, 10)]
        \<lparr>predictions = [], rng = 42, connects = 0, open_cursors = 0, open_conns = 0\<rparr>
       = (Inr \<lparr>statusCode = 200, message = ''Fallback forecast stored (insufficient history).'',
               message_dates = []\<rparr>,
          \<lparr>predictions = [\<lparr>prediction_date = 4, fire_event_timestamp = 259200, predicted_aqi = 15\<rparr>,
                          \<lparr>prediction_date = 5, fire_event_timestamp = 259200, predicted_aqi = 15\<rparr>,
                          \<lparr>prediction_date = 6, fire_event_timestamp = 259200, predicted_aqi = 15\<rparr>],
           rng = 42, connects = 1, open_cursors = 0, open_conns = 0\<rparr>)
   \<and> lambda_handler (\<lambda>g. (g, Suc g)) (\<lambda>op. op = Insert) 1000 [(3, 1), (1, 2), (3, 5)] [(86400, 10)]
        \<lparr>predictions = [], rng = 42, connects = 0, open_cursors = 0, open_conns = 0\<rparr>
       = (Inl (DatabaseError Insert),
          \<lparr>predictions = [], rng = 42, connects = 1, open_cursors = 1, open_conns = 1\<rparr>)"
proof -
  have h1: "[(3, 1), (1, 2), (3, 5 :: real)] \<noteq> ([] :: (int \<times> real) list)"
    by simp
  have h2: "length (merged_series (aqi_daily_of [(86400, 10)])
              (fire_daily_of [(3, 1), (1, 2), (3, 5)])) < 5"
    by (simp add: merged_series_def merge_left_def aqi_daily_of_def fire_daily_of_def
          groupby_mean_def date_of_def)
  have m: "Max (fst ` set [(3, 1), (1, 2), (3, 5 :: real)]) = (3 :: int)"
    by simp
  show ?thesis
    using h1 h2
      fallback_path_forecast [OF h1 h2, where now = 1000 and draw = "\<lambda>g. (g, Suc g)"
        and faulty = no_faults and s =
        "\<lparr>predictions = [\<lparr>prediction_date = 5, fire_event_timestamp = 0, predicted_aqi = 40\<rparr>],
         rng = 42, connects = 0, open_cursors = 0, open_conns = 0\<rparr>"]
      fallback_path_forecast [OF h1 h2, where now = 1000 and draw = "\<lambda>g. (g, Suc g)"
        and faulty = no_faults and s =
        "\<lparr>predictions = [], rng = 42, connects = 0, open_cursors = 0, open_conns = 0\<rparr>"]
      fallback_path_forecast [OF h1 h2, where now = 1000 and draw = "\<lambda>g. (g, Suc g)"
        and faulty = "\<lambda>op. op = Insert" and s =
        "\<lparr>predictions = [], rng = 42, connects = 0, open_cursors = 0, open_conns = 0\<rparr>"]
    unfolding m by (simp add: Let_def mean_def to_datetime_def no_faults_def)
qed

text \<open>
  The sink skips every date the table holds: when the table already has rows for
  \<open>D + 1\<close>, \<open>D + 2\<close> and \<open>D + 3\<close>, the invocation reports success and none of the three points
  is stored; the table keeps its old values for these dates.
\<close>

theorem fallback_dates_already_stored_counterexample:
  "[(3, 1), (1, 2), (3, 5 :: real)] \<noteq> ([] :: (int \<times> real) list)
   \<and> length (merged_series (aqi_daily_of [(86400, 10)]) (fire_daily_of [(3, 1), (1, 2), (3, 5)])) < 5
   \<and> fallback_forecast 1000 [(3, 1), (1, 2), (3, 5)] (fire_daily_of [(3, 1), (1, 2), (3, 5)])
       = \<lparr>forecast_dates = [4, 5, 6], fire_event_time = 259200, forecast_aqi = [15, 15, 15]\<rparr>
   \<and> lambda_handler (\<lambda>g. (g, Suc g)) no_faults 1000 [(3, 1), (1, 2), (3, 5)] [(86400, 10)]
        \<lparr>predictions = [\<lparr>prediction_date = 4, fire_event_timestamp = 0, predicted_aqi = 40\<rparr>,
                        \<lparr>prediction_date = 5, fire_event_timestamp = 0, predicted_aqi = 40\<rparr>,
                        \<lparr>prediction_date = 6, fire_event_timestamp = 0, predicted_aqi = 40\<rparr>],
         rng = 42, connects = 0, open_cursors = 0, open_conns = 0\<rparr>
       = (Inr \<lparr>statusCode = 200, message = ''Fallback forecast stored (insufficient history).'',
               message_dates = []\<rparr>,
          \<lparr>predictions = [\<lparr>prediction_date = 4, fire_event_timestamp = 0, predicted_aqi = 40\<rparr>,
                          \<lparr>prediction_date = 5, fire_event_timestamp = 0, predicted_aqi = 40\<rparr>,
                          \<lparr>prediction_date = 6, fire_event_timestamp = 0, predicted_aqi = 40\<rparr>],
           rng = 42, connects = 1, open_cursors = 0, open_conns = 0\<rparr>)"
  by (simp add: lambda_handler_def no_faults_def merged_series_def merge_left_def aqi_daily_of_def
        fire_daily_of_def groupby_mean_def mean_def fallback_forecast_def fire_event_time_of_def
        store_and_close_def create_prediction_table_def insert_timeseries_def close_all_def
        fallback_response_def range_one_four date_of_def add_days_def to_datetime_def
        numeral_3_eq_3)

subsection \<open>Sign of the values handed to the sink\<close>

text \<open>
  C8, as the code has it. On the full-model path every value of the forecast is at least 0.
  On the fallback path the three values are \<open>I * 5\<close> for the mean brightness \<open>I\<close> of the last
  fire date (0 when there is no fire row), with no clamp: they are at least 0 exactly when
  there is no fire row or \<open>I\<close> is at least 0.
\<close>

theorem forecast_values_nonneg:
  "(5 \<le> length df \<longrightarrow> full_model_forecast draw now fire_df last_fire_date df g = Inr (fc, g')
       \<longrightarrow> (\<forall>a \<in> set (forecast_aqi fc). 0 \<le> a))
   \<and> forecast_aqi (fallback_forecast now fire_df (fire_daily_of fire_df)) =
       (if fire_df = [] then [0, 0, 0]
        else let D = Max (fst ` set fire_df);
                 I = mean (map snd (filter (\<lambda>r. fst r = D) fire_df))
             in [I * 5, I * 5, I * 5])
   \<and> ((\<forall>a \<in> set (forecast_aqi (fallback_forecast now fire_df (fire_daily_of fire_df))). 0 \<le> a)
        \<longleftrightarrow> fire_df = []
            \<or> 0 \<le> mean (map snd (filter (\<lambda>r. fst r = Max (fst ` set fire_df)) fire_df)))"
proof -
  have e: "forecast_aqi (fallback_forecast now [] (fire_daily_of [])) = [0, 0, 0]"
    by (simp add: fallback_forecast_def fire_daily_of_def numeral_3_eq_3)
  have n: "forecast_aqi (fallback_forecast now fire_df (fire_daily_of fire_df)) =
             (let D = Max (fst ` set fire_df);
                  I = mean (map snd (filter (\<lambda>r. fst r = D) fire_df))
              in [I * 5, I * 5, I * 5])" if "fire_df \<noteq> []"
    using fallback_forecast_fire [OF that, of now] by (simp add: numeral_3_eq_3 Let_def)
  show ?thesis
  proof (cases "fire_df = []")
    case True
    with e full_model_forecast_nonneg [of df draw now fire_df last_fire_date g fc g']
    show ?thesis by auto
  next
    case False
    with n [OF False] full_model_forecast_nonneg [of df draw now fire_df last_fire_date g fc g']
    show ?thesis by (auto simp: Let_def)
  qed
qed

theorem forecast_values_nonneg_witness:
  "5 \<le> length [\<lparr>date = 0, aqi = 2, fire_intensity = 4\<rparr>, \<lparr>date = 1, aqi = 2, fire_intensity = 4\<rparr>,
      \<lparr>date = 2, aqi = 2, fire_intensity = 4\<rparr>, \<lparr>date = 3, aqi = 2, fire_intensity = 4\<rparr>,
      \<lparr>date = 4, aqi = 2, fire_intensity = 4\<rparr>]
   \<and> full_model_forecast (\<lambda>g. (g, Suc g)) 0 [(4, 4)] (Some 345600)
     [\<lparr>date = 0, aqi = 2, fire_intensity = 4\<rparr>, \<lparr>date = 1, aqi = 2, fire_intensity = 4\<rparr>,
      \<lparr>date = 2, aqi = 2, fire_intensity = 4\<rparr>, \<lparr>date = 3, aqi = 2, fire_intensity = 4\<rparr>,
      \<lparr>date = 4, aqi = 2, fire_intensity = 4\<rparr>] 42
     = Inr (\<lparr>forecast_dates = [5, 6, 7], fire_event_time = 345600, forecast_aqi = [2, 2, 2]\<rparr>,
            snd (drawn_indices (\<lambda>g. (g, Suc g)) 4 4000 42))
   \<and> list_all (\<lambda>a. 0 \<le> a) (forecast_aqi \<lparr>forecast_dates = [5, 6, 7], fire_event_time = 345600,
                                   forecast_aqi = [2, 2, 2]\<rparr>)
   \<and> forecast_aqi (fallback_forecast 0 [(4, 4)] (fire_daily_of [(4, 4)])) = [20, 20, 20]
   \<and> 0 \<le> mean (map snd (filter (\<lambda>r. fst r = Max (fst ` set [(4 :: int, 4 :: real)])) [(4, 4)]))"
proof -
  let ?df = "[\<lparr>date = 0, aqi = 2, fire_intensity = 4\<rparr>, \<lparr>date = 1, aqi = 2, fire_intensity = 4\<rparr>,
      \<lparr>date = 2, aqi = 2, fire_intensity = 4\<rparr>, \<lparr>date = 3, aqi = 2, fire_intensity = 4\<rparr>,
      \<lparr>date = 4, aqi = 2, fire_intensity = 4\<rparr>]"
  let ?fc = "\<lparr>forecast_dates = [5, 6, 7], fire_event_time = 345600, forecast_aqi = [2, 2, 2]\<rparr>"
  have h1: "5 \<le> length ?df" by simp
  have h2: "full_model_forecast (\<lambda>g. (g, Suc g)) 0 [(4, 4)] (Some 345600) ?df 42
              = Inr (?fc, snd (drawn_indices (\<lambda>g. (g, Suc g)) 4 4000 (42 :: nat)))"
    by (simp add: full_model_forecast_steady fire_event_time_of_def to_datetime_def)
  from forecast_values_nonneg [where df = ?df and draw = "\<lambda>g. (g, Suc g)" and now = 0
      and fire_df = "[(4, 4)]" and last_fire_date = "Some 345600" and g = 42 and fc = ?fc
      and g' = "snd (drawn_indices (\<lambda>g. (g, Suc g)) 4 4000 (42 :: nat))"] h1 h2
  show ?thesis
    by (simp add: mean_def)
qed

text \<open>
  One fire row of brightness \<open>-1\<close> and no AQI reading: the fallback stores \<open>-5\<close> for each of
  the three days.
\<close>

theorem fallback_negative_counterexample:
  "lambda_handler (\<lambda>g. (g, Suc g)) no_faults 0 [(0, - 1)] []
      \<lparr>predictions = [], rng = 42, connects = 0, open_cursors = 0, open_conns = 0\<rparr>
   = (Inr fallback_response,
      \<lparr>predictions = [\<lparr>prediction_date = 1, fire_event_timestamp = 0, predicted_aqi = - 5\<rparr>,
                      \<lparr>prediction_date = 2, fire_event_timestamp = 0, predicted_aqi = - 5\<rparr>,
                      \<lparr>prediction_date = 3, fire_event_timestamp = 0, predicted_aqi = - 5\<rparr>],
       rng = 42, connects = 1, open_cursors = 0, open_conns = 0\<rparr>)"
proof -
  have r: "[Suc 0 ..< 4] = [1, 2, 3::nat]" by code_simp
  show ?thesis
    by (simp add: lambda_handler_def no_faults_def merged_series_def merge_left_def aqi_daily_of_def
        fire_daily_of_def groupby_mean_def mean_def fallback_forecast_def fire_event_time_of_def
        store_and_close_def create_prediction_table_def insert_timeseries_def close_all_def
        fallback_response_def r date_of_def add_days_def to_datetime_def numeral_3_eq_3)
qed

subsection \<open>Determinism\<close>

text \<open>
  C10, as the code has it. The module seeds the generator with 42 when it is loaded, and
  training is the only code that draws from it. The indices of a training run are the
  results of \<open>epochs\<close> successive draws taken modulo the number of samples, from the
  generator state at the call: they depend on that state and on the number of samples, not
  on the sample values or the weights, and the trained model is the fold of the gradient
  step of lines 38-47 over them. An invocation in a fresh process leaves the generator at
  the seed when it takes the fallback path, and after exactly 4000 draws from the seed when
  it takes the full-model path. With at least one fire row, two invocations in fresh
  processes on the same rows compute the same forecast, return the same response and leave
  the same generator, whatever their clocks and whatever the table holds; on the same table
  their outcomes are equal altogether.
\<close>

theorem training_and_forecast_deterministic:
  "drawn_indices draw n 0 g = ([], g)
   \<and> drawn_indices draw n (Suc k) g =
       (fst (draw g) mod n # fst (drawn_indices draw n k (snd (draw g))),
        snd (drawn_indices draw n k (snd (draw g))))
   \<and> (length x_aqi = length y_next \<longrightarrow> length x_fire = length y_next \<longrightarrow> y_next \<noteq> [] \<longrightarrow>
        sgd_train draw x_aqi x_fire y_next epochs (\<lparr>w = ws, lr = rate\<rparr>, g) =
          Inr (foldl (\<lambda>m i. case w m of (w0, w1, w2) \<Rightarrow>
                        (let err = w0 + w1 * x_aqi ! i + w2 * x_fire ! i - y_next ! i
                         in m\<lparr>w := (w0 - lr m * (2 * err),
                                     w1 - lr m * (2 * err * x_aqi ! i),
                                     w2 - lr m * (2 * err * x_fire ! i))\<rparr>))
                 \<lparr>w = ws, lr = rate\<rparr> (fst (drawn_indices draw (length y_next) epochs g)),
               snd (drawn_indices draw (length y_next) epochs g)))
   \<and> rng (snd (lambda_handler draw no_faults now1 fires air_quality (module_load seed store1)))
       = (if length (merged_series (aqi_daily_of air_quality) (fire_daily_of fires)) < 5
          then seed 42
          else snd (drawn_indices draw
                 (length (merged_series (aqi_daily_of air_quality) (fire_daily_of fires)) - 1)
                 4000 (seed 42)))
   \<and> (fires \<noteq> [] \<longrightarrow>
         lambda_handler draw faulty now1 fires air_quality (module_load seed store1)
           = lambda_handler draw faulty now2 fires air_quality (module_load seed store1)
       \<and> fst (lambda_handler draw no_faults now1 fires air_quality (module_load seed store1))
           = fst (lambda_handler draw no_faults now2 fires air_quality (module_load seed store2))
       \<and> rng (snd (lambda_handler draw no_faults now1 fires air_quality (module_load seed store1)))
           = rng (snd (lambda_handler draw no_faults now2 fires air_quality (module_load seed store2)))
       \<and> fallback_forecast now1 fires (fire_daily_of fires)
           = fallback_forecast now2 fires (fire_daily_of fires)
       \<and> full_model_forecast draw now1 fires last_fire_date df (rng (module_load seed store1))
           = full_model_forecast draw now2 fires last_fire_date df (rng (module_load seed store2)))"
proof -
  let ?df = "merged_series (aqi_daily_of air_quality) (fire_daily_of fires)"
  have a: "length x_aqi = length y_next \<longrightarrow> length x_fire = length y_next \<longrightarrow> y_next \<noteq> [] \<longrightarrow>
        sgd_train draw x_aqi x_fire y_next epochs (\<lparr>w = ws, lr = rate\<rparr>, g) =
          Inr (foldl (\<lambda>m i. case w m of (w0, w1, w2) \<Rightarrow>
                        (let err = w0 + w1 * x_aqi ! i + w2 * x_fire ! i - y_next ! i
                         in m\<lparr>w := (w0 - lr m * (2 * err),
                                     w1 - lr m * (2 * err * x_aqi ! i),
                                     w2 - lr m * (2 * err * x_fire ! i))\<rparr>))
                 \<lparr>w = ws, lr = rate\<rparr> (fst (drawn_indices draw (length y_next) epochs g)),
               snd (drawn_indices draw (length y_next) epochs g))"
    using sgd_train_fold [of x_aqi y_next x_fire draw epochs "\<lparr>w = ws, lr = rate\<rparr>" g]
    by (simp add: case_prod_beta sgd_update_explicit)
  have g42: "rng (module_load seed store) = seed 42" for store :: "prediction list"
    by (simp add: module_load_def)
  have r: "rng (snd (lambda_handler draw no_faults now fires air_quality (module_load seed store)))
       = (if length ?df < 5 then seed 42
          else snd (drawn_indices draw (length ?df - 1) 4000 (seed 42)))" for now store
    unfolding lambda_handler_no_faults_outcome(2) g42
    using full_model_forecast_generator [of ?df draw now fires "last_fire_date_of fires" "seed 42"]
    by simp
  have b: "fires \<noteq> [] \<longrightarrow>
         lambda_handler draw faulty now1 fires air_quality (module_load seed store1)
           = lambda_handler draw faulty now2 fires air_quality (module_load seed store1)
       \<and> fst (lambda_handler draw no_faults now1 fires air_quality (module_load seed store1))
           = fst (lambda_handler draw no_faults now2 fires air_quality (module_load seed store2))
       \<and> fallback_forecast now1 fires (fire_daily_of fires)
           = fallback_forecast now2 fires (fire_daily_of fires)
       \<and> full_model_forecast draw now1 fires last_fire_date df (rng (module_load seed store1))
           = full_model_forecast draw now2 fires last_fire_date df (rng (module_load seed store2))"
  proof
    assume f: "fires \<noteq> []"
    have "fst (lambda_handler draw no_faults now1 fires air_quality (module_load seed store1))
           = fst (lambda_handler draw no_faults now2 fires air_quality (module_load seed store2))"
      unfolding lambda_handler_no_faults_outcome(1) g42
        full_model_forecast_clock [OF f, of draw now1 _ _ _ now2] ..
    moreover have "full_model_forecast draw now1 fires last_fire_date df (rng (module_load seed store1))
           = full_model_forecast draw now2 fires last_fire_date df (rng (module_load seed store2))"
      unfolding g42 by (rule full_model_forecast_clock [OF f])
    ultimately show "lambda_handler draw faulty now1 fires air_quality (module_load seed store1)
           = lambda_handler draw faulty now2 fires air_quality (module_load seed store1)
       \<and> fst (lambda_handler draw no_faults now1 fires air_quality (module_load seed store1))
           = fst (lambda_handler draw no_faults now2 fires air_quality (module_load seed store2))
       \<and> fallback_forecast now1 fires (fire_daily_of fires)
           = fallback_forecast now2 fires (fire_daily_of fires)
       \<and> full_model_forecast draw now1 fires last_fire_date df (rng (module_load seed store1))
           = full_model_forecast draw now2 fires last_fire_date df (rng (module_load seed store2))"
      using lambda_handler_clock [OF f] fallback_forecast_clock [OF f] by blast
  qed
  show ?thesis
    using a b r [of now1 store1] r [of now2 store2] drawn_indices_step [of draw n k g]
    by (simp only: drawn_indices.simps) blast
qed

theorem training_and_forecast_deterministic_witness:
  "length [1, 2 :: real] = length [2, 3 :: real] \<and> length [0, 1 :: real] = length [2, 3 :: real]
   \<and> [2, 3 :: real] \<noteq> []
   \<and> sgd_train (\<lambda>g. (g, Suc g)) [1, 2] [0, 1] [2, 3] 2
         (\<lparr>w = (0, 1 / 2, 1 / 2), lr = 1 / 1000\<rparr>, 42)
       = Inr (\<lparr>w = (2991 / 500000, 127241 / 250000, 251491 / 500000), lr = 1 / 1000\<rparr>, 44)
   \<and> sgd_train (\<lambda>g. (g, Suc g)) [1, 2] [0, 1] [2, 3] 2
         (\<lparr>w = (0, 1 / 2, 1 / 2), lr = 1 / 1000\<rparr>, 43)
       = Inr (\<lparr>w = (2991 / 500000, 254491 / 500000, 503 / 1000), lr = 1 / 1000\<rparr>, 45)
   \<and> [(2, 10), (3, 10 :: real)] \<noteq> ([] :: (int \<times> real) list)
   \<and> length (merged_series
         (aqi_daily_of [(0, 50), (86400, 55), (172800, 52), (259200, 60), (345600, 58)])
         (fire_daily_of [(2, 10), (3, 10)])) = 5
   \<and> rng (snd (lambda_handler (\<lambda>g. (g, Suc g)) no_faults 0 [(2, 10), (3, 10)]
         [(0, 50), (86400, 55), (172800, 52), (259200, 60), (345600, 58)]
         (module_load (\<lambda>n. n) []))) = 4042
   \<and> fst (lambda_handler (\<lambda>g. (g, Suc g)) no_faults 0 [(2, 10), (3, 10)]
         [(0, 50), (86400, 55), (172800, 52), (259200, 60), (345600, 58)]
         (module_load (\<lambda>n. n) [])) = Inr (forecast_response [4, 5, 6])
   \<and> fst (lambda_handler (\<lambda>g. (g, Suc g)) no_faults 86400 [(2, 10), (3, 10)]
         [(0, 50), (86400, 55), (172800, 52), (259200, 60), (345600, 58)]
         (module_load (\<lambda>n. n)
            [\<lparr>prediction_date = 5, fire_event_timestamp = 0, predicted_aqi = 40\<rparr>]))
       = Inr (forecast_response [4, 5, 6])
   \<and> lambda_handler (\<lambda>g. (g, Suc g)) no_faults 0 [(2, 10), (3, 10)]
         [(0, 50), (86400, 55), (172800, 52), (259200, 60), (345600, 58)]
         (module_load (\<lambda>n. n) [])
     = lambda_handler (\<lambda>g. (g, Suc g)) no_faults 86400 [(2, 10), (3, 10)]
         [(0, 50), (86400, 55), (172800, 52), (259200, 60), (345600, 58)]
         (module_load (\<lambda>n. n) [])"
proof -
  let ?d = "\<lambda>g :: nat. (g, Suc g)"
  let ?aq = "[(0, 50), (86400, 55), (172800, 52), (259200, 60), (345600, 58)] :: (int \<times> int) list"
  let ?fires = "[(2, 10), (3, 10)] :: (int \<times> real) list"
  let ?row = "\<lparr>prediction_date = 5, fire_event_timestamp = 0, predicted_aqi = 40\<rparr>"
  have len: "length (merged_series (aqi_daily_of ?aq) (fire_daily_of ?fires)) = 5"
    unfolding merged_five_days by simp
  have ne: "?fires \<noteq> []" by simp
  note T = training_and_forecast_deterministic [where draw = ?d and x_aqi = "[1, 2]"
      and x_fire = "[0, 1]" and y_next = "[2, 3]" and epochs = 2 and ws = "(0, 1 / 2, 1 / 2)"
      and rate = "1 / 1000" and fires = ?fires and air_quality = ?aq and seed = "\<lambda>n. n"
      and ?now1.0 = 0 and ?now2.0 = 86400 and ?store1.0 = "[]" and ?store2.0 = "[?row]"
      and faulty = no_faults]
  have t42: "sgd_train ?d [1, 2] [0, 1] [2, 3] 2 (\<lparr>w = (0, 1 / 2, 1 / 2), lr = 1 / 1000\<rparr>, 42)
       = Inr (\<lparr>w = (2991 / 500000, 127241 / 250000, 251491 / 500000), lr = 1 / 1000\<rparr>, 44)"
  proof -
    have di: "drawn_indices ?d (length [2, 3 :: real]) 2 42 = ([0, 1], 44)"
      by code_simp
    show ?thesis
      using T [where g = 42, THEN conjunct2, THEN conjunct2, THEN conjunct1]
      unfolding di by simp
  qed
  have t43: "sgd_train ?d [1, 2] [0, 1] [2, 3] 2 (\<lparr>w = (0, 1 / 2, 1 / 2), lr = 1 / 1000\<rparr>, 43)
       = Inr (\<lparr>w = (2991 / 500000, 254491 / 500000, 503 / 1000), lr = 1 / 1000\<rparr>, 45)"
  proof -
    have di: "drawn_indices ?d (length [2, 3 :: real]) 2 43 = ([1, 0], 45)"
      by code_simp
    show ?thesis
      using T [where g = 43, THEN conjunct2, THEN conjunct2, THEN conjunct1]
      unfolding di by simp
  qed
  have g: "rng (snd (lambda_handler ?d no_faults 0 ?fires ?aq (module_load (\<lambda>n. n) []))) = 4042"
    using T [THEN conjunct2, THEN conjunct2, THEN conjunct2, THEN conjunct1]
    unfolding len by (simp add: drawn_indices_counter)
  have r1: "fst (lambda_handler ?d no_faults 0 ?fires ?aq (module_load (\<lambda>n. n) []))
              = Inr (forecast_response [4, 5, 6])"
    by (rule handler_five_days_response)
  from T [THEN conjunct2, THEN conjunct2, THEN conjunct2, THEN conjunct2] ne
  have two: "lambda_handler ?d no_faults 0 ?fires ?aq (module_load (\<lambda>n. n) [])
           = lambda_handler ?d no_faults 86400 ?fires ?aq (module_load (\<lambda>n. n) [])"
    and fsts: "fst (lambda_handler ?d no_faults 0 ?fires ?aq (module_load (\<lambda>n. n) []))
           = fst (lambda_handler ?d no_faults 86400 ?fires ?aq (module_load (\<lambda>n. n) [?row]))"
    by blast+
  from fsts r1 have r2: "fst (lambda_handler ?d no_faults 86400 ?fires ?aq
      (module_load (\<lambda>n. n) [?row])) = Inr (forecast_response [4, 5, 6])"
    by simp
  have l: "length [1, 2 :: real] = length [2, 3 :: real]"
      "length [0, 1 :: real] = length [2, 3 :: real]" "[2, 3 :: real] \<noteq> []"
    by simp_all
  from l t42 t43 ne len g r1 r2 two show ?thesis
    by blast
qed

text \<open>
  With no fire row and fewer than five merged rows the forecast dates are anchored at the
  clock (line 109): two runs in fresh processes on the same (empty) rows, one day apart,
  store different dates.
\<close>

theorem clock_anchored_fallback_counterexample:
  "map prediction_date (predictions (snd (lambda_handler (\<lambda>g. (g, Suc g)) no_faults 0 [] []
         (module_load (\<lambda>n. n) [])))) = [1, 2, 3]
   \<and> map prediction_date (predictions (snd (lambda_handler (\<lambda>g. (g, Suc g)) no_faults 86400 [] []
         (module_load (\<lambda>n. n) [])))) = [2, 3, 4]
   \<and> lambda_handler (\<lambda>g. (g, Suc g)) no_faults 0 [] [] (module_load (\<lambda>n. n) [])
     \<noteq> lambda_handler (\<lambda>g. (g, Suc g)) no_faults 86400 [] [] (module_load (\<lambda>n. n) [])"
  by (simp add: lambda_handler_def no_faults_def merged_series_def merge_left_def aqi_daily_of_def
        fire_daily_of_def fallback_forecast_def fire_event_time_of_def module_load_def
        store_and_close_def create_prediction_table_def insert_timeseries_def close_all_def
        fallback_response_def range_one_four date_of_def add_days_def numeral_3_eq_3)

subsection \<open>The rollout seed\<close>

text \<open>
  C5. The seed of the rollout is looked up without a guard, so not every invocation on the
  full-model path has one. With readings on five days and no fire row the handler raises
  \<open>UnboundLocalError\<close> at line 155; with the same readings and a single fire row dated before
  all of them it raises \<open>IndexError\<close> at line 156. Neither run produces a forecast. (Where
  the seed row exists, \<open>full_model_forecast_seeded\<close> above shows how it is used.)
\<close>

theorem seed_lookup_raises:
  "fst (lambda_handler draw no_faults now []
          [(0, 50), (86400, 55), (172800, 52), (259200, 60), (345600, 58)] s)
     = Inl UnboundLocalError
   \<and> fst (lambda_handler draw no_faults now [(- 1, 300)]
          [(0, 50), (86400, 55), (172800, 52), (259200, 60), (345600, 58)] s)
     = Inl IndexError"
  using handler_no_fire_rows [of draw now s] handler_fire_before_aqi [of draw now s]
  by auto

subsection \<open>Release of the connection\<close>

text \<open>
  C9. The handler closes the cursor and the connection only on its two returns
  (\<open>lambda_handler_return_closes\<close> above); nothing closes them when a statement raises
  (\<open>lambda_handler_raise_leaks\<close>). At the input of C5 with no fire row the invocation has
  acquired one connection and ends with the connection and the cursor still open; the same
  holds when the AQI read raises, for any rows, and when the table creation raises on the
  fallback path.
\<close>

theorem connection_left_open:
  "fst (lambda_handler draw no_faults now []
          [(0, 50), (86400, 55), (172800, 52), (259200, 60), (345600, 58)] s)
     = Inl UnboundLocalError
   \<and> connects (snd (lambda_handler draw no_faults now []
          [(0, 50), (86400, 55), (172800, 52), (259200, 60), (345600, 58)] s)) = connects s + 1
   \<and> open_conns (snd (lambda_handler draw no_faults now []
          [(0, 50), (86400, 55), (172800, 52), (259200, 60), (345600, 58)] s)) = open_conns s + 1
   \<and> open_cursors (snd (lambda_handler draw no_faults now []
          [(0, 50), (86400, 55), (172800, 52), (259200, 60), (345600, 58)] s)) = open_cursors s + 1
   \<and> lambda_handler draw (\<lambda>op. op = ReadAqi) now fires air_quality s
     = (Inl (DatabaseError ReadAqi),
        s\<lparr>connects := connects s + 1, open_conns := open_conns s + 1,
          open_cursors := open_cursors s + 1\<rparr>)
   \<and> lambda_handler draw (\<lambda>op. op = CreateTable) now [] [] s
     = (Inl (DatabaseError CreateTable),
        s\<lparr>connects := connects s + 1, open_conns := open_conns s + 1,
          open_cursors := open_cursors s + 1\<rparr>)"
proof -
  have "lambda_handler draw (\<lambda>op. op = ReadAqi) now fires air_quality s
     = (Inl (DatabaseError ReadAqi),
        s\<lparr>connects := connects s + 1, open_conns := open_conns s + 1,
          open_cursors := open_cursors s + 1\<rparr>)"
    by (simp add: lambda_handler_def)
  moreover have "lambda_handler draw (\<lambda>op. op = CreateTable) now [] [] s
     = (Inl (DatabaseError CreateTable),
        s\<lparr>connects := connects s + 1, open_conns := open_conns s + 1,
          open_cursors := open_cursors s + 1\<rparr>)"
    by (simp add: lambda_handler_def merged_series_def merge_left_def aqi_daily_of_def
        store_and_close_def create_prediction_table_def)
  ultimately show ?thesis
    using handler_no_fire_rows [of draw now s] by auto
qed

end
